theory Spec2Isabelle
  imports Complex_Main
begin

section \<open>Data model of the diagram editor state (services/AppState.ts)\<close>

text \<open>
  JavaScript numbers are modelled as reals where they are coordinates and distances
  that the code adds, subtracts and compares, and as integers where they are array
  indices and sequence numbers.
  A JavaScript object that is shared between several arrays (a \<open>PointModel\<close> is held by
  its parent object's \<open>points\<close> array and by the diagram's \<open>points\<close> array) lives in a
  store: an address denotes the object, the store maps the address to the object's
  current fields, and an array of objects is a list of addresses.

  Record fields carry a prefix where two classes of the source use one field name
  (\<open>x\<close>, \<open>y\<close>, \<open>iri\<close>, \<open>points\<close>): \<open>pt_\<close> for \<open>Point2D\<close>, \<open>pm_\<close> for \<open>PointModel\<close>,
  \<open>obj_\<close> for \<open>DiagramObjectModel\<close>, \<open>dm_\<close> for \<open>DiagramModel\<close>, \<open>vt_\<close> for
  \<open>ViewTransform\<close>.
\<close>

type_synonym iri = string
type_synonym pref = nat
type_synonym oref = nat

datatype InteractionMode = NONE | DRAGGING | SELECTING | PANNING

datatype CGMESVersion = V2_4_15 | V3_0

datatype error = Error string

record Point2D =
  pt_x :: real
  pt_y :: real

text \<open>
  \<open>PointModel\<close> is declared in models/PointModel, which AppState.ts imports. The
  fields \<open>pm_iri\<close>, \<open>pm_x\<close>, \<open>pm_y\<close>, \<open>sequenceNumber\<close> and \<open>parentObject\<close> are the
  ones the constructor call \<open>new PointModel(iri, x, y, sequenceNumber, parentObject)\<close>
  and the field accesses of AppState.ts show.
\<close>

text \<open>
  Modelled from the spec: the field \<open>pm_glued\<close> of \<open>PointModel\<close>, a class whose
  declaration AppState.ts only imports. The data model gives every point a set of
  glued-point identifiers. No function of AppState.ts reads or writes the field; a
  point made by the constructor call has none.
\<close>

record PointModel =
  pm_iri :: iri
  pm_x :: real
  pm_y :: real
  sequenceNumber :: int
  parentObject :: "oref option"
  pm_glued :: "iri list"

record DiagramObjectModel =
  obj_iri :: iri
  obj_points :: "pref list"

record DiagramModel =
  dm_objects :: "oref list"
  dm_points :: "pref list"

record ViewTransform =
  vt_scale :: real
  offsetX :: real
  offsetY :: real

text \<open>
  \<open>selectedPoints\<close> is a JavaScript \<open>Set\<close>, which keeps its elements in insertion
  order (\<open>Array.from\<close> reads that order): a list without repetition, see \<open>set_add\<close>.
  \<open>originalPositions\<close> is a \<open>Map\<close> that is only looked up and written by key.
\<close>

record InteractionState =
  mode :: InteractionMode
  dragStart :: "Point2D option"
  dragEnd :: "Point2D option"
  panStart :: "Point2D option"
  selectedPoints :: "iri list"
  originalPositions :: "iri \<rightharpoonup> Point2D"

record PointUpdateData =
  pud_points :: "iri list"
  pud_dx :: real
  pud_dy :: real

record NewPointData =
  np_iri :: iri
  np_objectIri :: iri
  np_x :: real
  np_y :: real
  np_sequenceNumber :: int

text \<open>
  The calls made on the remote store (\<open>sparqlService\<close>), in the order they are issued.
  The text of a layout query is built by \<open>buildDiagramLayoutQuery\<close>, which the
  diagram service imports; the call is recorded with the arguments the query is built
  from.
\<close>

datatype remote_call =
    InsertNewPoint NewPointData "(iri \<times> int) list" string
  | DeletePoint iri "(iri \<times> int) list" string
  | LayoutQuery string string

text \<open>
  \<open>AppConfig\<close> is declared in utils/config, which AppState.ts imports; the constants
  that AppState.ts reads from it are the fields of a parameter.
\<close>

record AppConfig =
  view_initialScale :: real
  view_initialOffsetX :: real
  view_initialOffsetY :: real
  dragThreshold :: real
  namespaces :: "CGMESVersion \<Rightarrow> string"

text \<open>
  The module's writable stores, the object store they point into, and the trace of the
  remote calls.
\<close>

record app =
  pointStore :: "pref \<Rightarrow> PointModel"
  objectStore :: "oref \<Rightarrow> DiagramObjectModel"
  cgmesVersion :: CGMESVersion
  viewTransform :: ViewTransform
  diagramData :: "DiagramModel option"
  isLoading :: bool
  statusText :: string
  selectedDiagram :: string
  interactionState :: InteractionState
  positionUpdateEvent :: "PointUpdateData option"
  remoteCalls :: "remote_call list"

definition initialInteractionState :: InteractionState where
  "initialInteractionState =
     \<lparr>mode = NONE, dragStart = None, dragEnd = None, panStart = None,
      selectedPoints = [], originalPositions = Map.empty\<rparr>"

subsection \<open>JavaScript containers\<close>

definition set_has :: "'a list \<Rightarrow> 'a \<Rightarrow> bool" where
  "set_has s a = (a \<in> set s)"

definition set_add :: "'a list \<Rightarrow> 'a \<Rightarrow> 'a list" where
  "set_add s a = (if a \<in> set s then s else s @ [a])"

definition set_delete :: "'a list \<Rightarrow> 'a \<Rightarrow> 'a list" where
  "set_delete s a = filter (\<lambda>b. b \<noteq> a) s"

text \<open>\<open>Array.prototype.findIndex\<close>: the first index whose element passes, or -1.\<close>

fun findIndex :: "('a \<Rightarrow> bool) \<Rightarrow> 'a list \<Rightarrow> int" where
  "findIndex P [] = - 1"
| "findIndex P (a # as) =
     (if P a then 0 else (let k = findIndex P as in if k < 0 then - 1 else k + 1))"

text \<open>
  The start position of \<open>Array.prototype.splice\<close>: a negative start counts from the
  end, and the result is clamped to the array.
\<close>

definition splice_start :: "int \<Rightarrow> 'a list \<Rightarrow> nat" where
  "splice_start i as =
     (if i < 0 then nat (max (int (length as) + i) 0) else min (nat i) (length as))"

definition splice_insert :: "int \<Rightarrow> 'a \<Rightarrow> 'a list \<Rightarrow> 'a list" where
  "splice_insert i a as = take (splice_start i as) as @ [a] @ drop (splice_start i as) as"

definition splice_delete1 :: "int \<Rightarrow> 'a list \<Rightarrow> 'a list" where
  "splice_delete1 i as = take (splice_start i as) as @ drop (Suc (splice_start i as)) as"

text \<open>
  \<open>points.forEach(point => ...)\<close> where the callback assigns fields of \<open>point\<close>: every
  address of the array, in order, has its object replaced by the callback's result.
\<close>

definition forEachPoint ::
  "(PointModel \<Rightarrow> PointModel) \<Rightarrow> pref list \<Rightarrow> (pref \<Rightarrow> PointModel) \<Rightarrow> (pref \<Rightarrow> PointModel)" where
  "forEachPoint f rs s = foldl (\<lambda>s r. s(r := f (s r))) s rs"

text \<open>\<open>points.forEach((point, index) => { point.sequenceNumber = index })\<close>.\<close>

fun renumberFrom :: "int \<Rightarrow> pref list \<Rightarrow> (pref \<Rightarrow> PointModel) \<Rightarrow> (pref \<Rightarrow> PointModel)" where
  "renumberFrom k [] s = s"
| "renumberFrom k (r # rs) s = renumberFrom (k + 1) rs (s(r := (s r)\<lparr>sequenceNumber := k\<rparr>))"

definition renumber :: "pref list \<Rightarrow> (pref \<Rightarrow> PointModel) \<Rightarrow> (pref \<Rightarrow> PointModel)" where
  "renumber rs s = renumberFrom 0 rs s"

section \<open>Operations of AppState.ts\<close>

subsection \<open>Helper functions\<close>

definition resetViewTransform :: "AppConfig \<Rightarrow> app \<Rightarrow> app" where
  "resetViewTransform cfg st =
     st\<lparr>viewTransform :=
          \<lparr>vt_scale = view_initialScale cfg,
           offsetX = view_initialOffsetX cfg,
           offsetY = view_initialOffsetY cfg\<rparr>\<rparr>"

definition clearSelection :: "app \<Rightarrow> app" where
  "clearSelection st = st\<lparr>interactionState := (interactionState st)\<lparr>selectedPoints := []\<rparr>\<rparr>"

definition setLoading :: "bool \<Rightarrow> app \<Rightarrow> app" where
  "setLoading loading st = st\<lparr>isLoading := loading\<rparr>"

definition updateStatus :: "string \<Rightarrow> app \<Rightarrow> app" where
  "updateStatus text st = st\<lparr>statusText := text\<rparr>"

definition setCGMESVersion :: "CGMESVersion \<Rightarrow> app \<Rightarrow> app" where
  "setCGMESVersion version st = clearSelection (st\<lparr>cgmesVersion := version\<rparr>)"

definition cimNamespace :: "AppConfig \<Rightarrow> app \<Rightarrow> string" where
  "cimNamespace cfg st = namespaces cfg (cgmesVersion st)"

definition togglePointSelection :: "iri \<Rightarrow> app \<Rightarrow> app" where
  "togglePointSelection pointIri st =
     (let state = interactionState st;
          newSelectedPoints =
            (if set_has (selectedPoints state) pointIri
             then set_delete (selectedPoints state) pointIri
             else set_add (selectedPoints state) pointIri)
      in st\<lparr>interactionState := state\<lparr>selectedPoints := newSelectedPoints\<rparr>\<rparr>)"

subsection \<open>Dragging\<close>

text \<open>One round of the \<open>forEach\<close> of \<open>startDragging\<close>, which fills the snapshot map.\<close>

definition snapshotPoint ::
  "InteractionState \<Rightarrow> (pref \<Rightarrow> PointModel) \<Rightarrow> (iri \<rightharpoonup> Point2D) \<Rightarrow> pref \<Rightarrow> (iri \<rightharpoonup> Point2D)" where
  "snapshotPoint currentState s m r =
     (let point = s r in
      if set_has (selectedPoints currentState) (pm_iri point)
      then m(pm_iri point \<mapsto> \<lparr>pt_x = pm_x point, pt_y = pm_y point\<rparr>)
      else m)"

definition startDragging :: "Point2D \<Rightarrow> app \<Rightarrow> app" where
  "startDragging position st =
     (case diagramData st of
        None \<Rightarrow> st
      | Some currentDiagram \<Rightarrow>
          (let currentState = interactionState st;
               snapshot = foldl (snapshotPoint currentState (pointStore st)) Map.empty
                            (dm_points currentDiagram)
           in st\<lparr>interactionState := (interactionState st)
                   \<lparr>mode := DRAGGING, dragStart := Some position, dragEnd := Some position,
                    originalPositions := snapshot\<rparr>\<rparr>))"

text \<open>The callback of the \<open>forEach\<close> of \<open>updateDragging\<close>.\<close>

definition dragPoint :: "InteractionState \<Rightarrow> real \<Rightarrow> real \<Rightarrow> PointModel \<Rightarrow> PointModel" where
  "dragPoint currentState dx dy point =
     (if set_has (selectedPoints currentState) (pm_iri point)
      then (case originalPositions currentState (pm_iri point) of
              None \<Rightarrow> point
            | Some original \<Rightarrow> point\<lparr>pm_x := pt_x original + dx, pm_y := pt_y original + dy\<rparr>)
      else point)"

definition updateDragging :: "Point2D \<Rightarrow> app \<Rightarrow> app" where
  "updateDragging position st =
     (let currentState = interactionState st in
      case diagramData st of
        None \<Rightarrow> st
      | Some currentDiagram \<Rightarrow>
          if mode currentState \<noteq> DRAGGING then st
          else (case dragStart currentState of
                  None \<Rightarrow> st
                | Some start \<Rightarrow>
                    (let dx = pt_x position - pt_x start;
                         dy = pt_y position - pt_y start
                     in st\<lparr>pointStore :=
                              forEachPoint (dragPoint currentState dx dy)
                                (dm_points currentDiagram) (pointStore st),
                            interactionState :=
                              (interactionState st)\<lparr>dragEnd := Some position\<rparr>\<rparr>)))"

text \<open>The callback of the \<open>forEach\<close> of \<open>revertDraggedPositions\<close>.\<close>

definition revertPoint :: "InteractionState \<Rightarrow> PointModel \<Rightarrow> PointModel" where
  "revertPoint currentState point =
     (if set_has (selectedPoints currentState) (pm_iri point)
      then (case originalPositions currentState (pm_iri point) of
              None \<Rightarrow> point
            | Some original \<Rightarrow> point\<lparr>pm_x := pt_x original, pm_y := pt_y original\<rparr>)
      else point)"

definition revertDraggedPositions :: "app \<Rightarrow> app" where
  "revertDraggedPositions st =
     (case diagramData st of
        None \<Rightarrow> st
      | Some currentDiagram \<Rightarrow>
          st\<lparr>pointStore :=
               forEachPoint (revertPoint (interactionState st))
                 (dm_points currentDiagram) (pointStore st)\<rparr>)"

definition endDragging :: "AppConfig \<Rightarrow> Point2D \<Rightarrow> app \<Rightarrow> PointUpdateData option \<times> app" where
  "endDragging cfg position st =
     (let currentState = interactionState st in
      if mode currentState \<noteq> DRAGGING then (None, st)
      else (case dragStart currentState of
              None \<Rightarrow> (None, st)
            | Some start \<Rightarrow>
                (let dx = pt_x position - pt_x start;
                     dy = pt_y position - pt_y start;
                     st1 = st\<lparr>interactionState :=
                                (interactionState st)
                                  \<lparr>mode := NONE, dragStart := None, dragEnd := None\<rparr>\<rparr>;
                     isSignificant = (\<bar>dx\<bar> > dragThreshold cfg \<or> \<bar>dy\<bar> > dragThreshold cfg)
                 in if \<not> isSignificant then (None, revertDraggedPositions st1)
                    else (let result = \<lparr>pud_points = selectedPoints currentState,
                                        pud_dx = dx, pud_dy = dy\<rparr>
                          in (Some result, st1\<lparr>positionUpdateEvent := Some result\<rparr>)))))"

subsection \<open>Rectangle selection\<close>

definition startSelecting :: "Point2D \<Rightarrow> app \<Rightarrow> app" where
  "startSelecting position st =
     st\<lparr>interactionState := (interactionState st)
          \<lparr>mode := SELECTING, dragStart := Some position, dragEnd := Some position\<rparr>\<rparr>"

definition updateSelecting :: "Point2D \<Rightarrow> app \<Rightarrow> app" where
  "updateSelecting position st =
     st\<lparr>interactionState := (interactionState st)\<lparr>dragEnd := Some position\<rparr>\<rparr>"

text \<open>One round of the \<open>forEach\<close> of \<open>completeSelecting\<close>.\<close>

definition selectInside ::
  "real \<Rightarrow> real \<Rightarrow> real \<Rightarrow> real \<Rightarrow> (pref \<Rightarrow> PointModel) \<Rightarrow> iri list \<Rightarrow> pref \<Rightarrow> iri list" where
  "selectInside startX startY endX endY s sel r =
     (let point = s r in
      if pm_x point \<ge> startX \<and> pm_x point \<le> endX \<and> pm_y point \<ge> startY \<and> pm_y point \<le> endY
      then set_add sel (pm_iri point)
      else sel)"

definition completeSelecting :: "app \<Rightarrow> app" where
  "completeSelecting st =
     (let currentState = interactionState st in
      case diagramData st of
        None \<Rightarrow> st
      | Some currentDiagram \<Rightarrow>
          if mode currentState \<noteq> SELECTING then st
          else (case (dragStart currentState, dragEnd currentState) of
                  (Some a, Some b) \<Rightarrow>
                    (let startX = min (pt_x a) (pt_x b);
                         startY = min (pt_y a) (pt_y b);
                         endX = max (pt_x a) (pt_x b);
                         endY = max (pt_y a) (pt_y b)
                     in if \<bar>endX - startX\<bar> \<le> 3 \<or> \<bar>endY - startY\<bar> \<le> 3
                        then st\<lparr>interactionState := (interactionState st)
                                  \<lparr>mode := NONE, dragStart := None, dragEnd := None\<rparr>\<rparr>
                        else (let newSelectedPoints =
                                    foldl (selectInside startX startY endX endY (pointStore st))
                                      (selectedPoints currentState) (dm_points currentDiagram)
                              in st\<lparr>interactionState := (interactionState st)
                                      \<lparr>mode := NONE, dragStart := None, dragEnd := None,
                                       selectedPoints := newSelectedPoints\<rparr>\<rparr>))
                | _ \<Rightarrow> st))"

subsection \<open>Panning\<close>

definition startPanning :: "Point2D \<Rightarrow> app \<Rightarrow> app" where
  "startPanning position st =
     st\<lparr>interactionState := (interactionState st)\<lparr>mode := PANNING, panStart := Some position\<rparr>\<rparr>"

definition updatePanning :: "Point2D \<Rightarrow> app \<Rightarrow> app" where
  "updatePanning position st =
     (let currentState = interactionState st in
      if mode currentState \<noteq> PANNING then st
      else (case panStart currentState of
              None \<Rightarrow> st
            | Some start \<Rightarrow>
                (let dx = pt_x position - pt_x start;
                     dy = pt_y position - pt_y start
                 in st\<lparr>viewTransform := (viewTransform st)
                          \<lparr>offsetX := offsetX (viewTransform st) + dx,
                           offsetY := offsetY (viewTransform st) + dy\<rparr>,
                        interactionState := (interactionState st)\<lparr>panStart := Some position\<rparr>\<rparr>)))"

definition endPanning :: "app \<Rightarrow> app" where
  "endPanning st =
     st\<lparr>interactionState := (interactionState st)\<lparr>mode := NONE, panStart := None\<rparr>\<rparr>"

subsection \<open>The diagram service (loadDiagramLayout)\<close>

text \<open>
  The text of \<open>diagram.objects.length\<close> and \<open>diagram.points.length\<close> in the status line.
\<close>

fun string_of_nat :: "nat \<Rightarrow> string" where
  "string_of_nat n =
     (if n < 10 then [char_of (48 + n)]
      else string_of_nat (n div 10) @ [char_of (48 + n mod 10)])"

text \<open>
  Modelled from the spec: the stores that the diagram service imports from
  features/diagram/DiagramState, features/ui/UIState, features/canvas/CanvasState and
  features/interaction/InteractionState, modules that are not among the source files.
  The data model has one diagram, one view transform, one interaction state, one
  status text and one loading flag; the imported stores are the fields of \<open>app\<close>.
\<close>

text \<open>
  Modelled from the spec: \<open>setLoading\<close> of features/ui/UIState, not among the source
  files. The engine exposes a boolean loading flag.
\<close>

definition setLoading_imported :: "bool \<Rightarrow> app \<Rightarrow> app" where
  "setLoading_imported loading st = st\<lparr>isLoading := loading\<rparr>"

text \<open>
  Modelled from the spec: \<open>updateStatus\<close> of features/ui/UIState, not among the source
  files. The engine exposes a status text stream for display.
\<close>

definition updateStatus_imported :: "string \<Rightarrow> app \<Rightarrow> app" where
  "updateStatus_imported text st = st\<lparr>statusText := text\<rparr>"

text \<open>
  Modelled from the spec: \<open>resetViewTransform\<close> of features/canvas/CanvasState, not
  among the source files. The view transform's \<open>reset()\<close> restores scale and offset to
  a fixed initial configuration.
\<close>

definition resetViewTransform_imported :: "AppConfig \<Rightarrow> app \<Rightarrow> app" where
  "resetViewTransform_imported cfg st =
     st\<lparr>viewTransform :=
          \<lparr>vt_scale = view_initialScale cfg,
           offsetX = view_initialOffsetX cfg,
           offsetY = view_initialOffsetY cfg\<rparr>\<rparr>"

text \<open>
  Modelled from the spec: \<open>clearSelection\<close> of features/interaction/InteractionState,
  not among the source files. Clear selection is independent of mode and empties the
  selection set (used on diagram reload, version change, escape).
\<close>

definition clearSelection_imported :: "app \<Rightarrow> app" where
  "clearSelection_imported st =
     st\<lparr>interactionState := (interactionState st)\<lparr>selectedPoints := []\<rparr>\<rparr>"

text \<open>
  Modelled from the spec: \<open>cimNamespace\<close> of features/diagram/DiagramState, not among
  the source files. Each remote call is namespace-scoped by the selected schema version.
\<close>

definition cimNamespace_imported :: "AppConfig \<Rightarrow> app \<Rightarrow> string" where
  "cimNamespace_imported cfg st = namespaces cfg (cgmesVersion st)"

text \<open>
  \<open>loadDiagramLayout\<close> of the diagram service. \<open>response\<close> is what the remote query
  and \<open>DiagramModel.fromSparqlResults\<close> (of models/DiagramModel, imported) produce: the
  error thrown, or the diagram built, whose points and objects are the ones the store
  holds at the addresses the diagram names. The function returns the diagram, or the
  error it throws, and the state it leaves. The helper functions it calls are the
  imported ones modelled above.
\<close>

definition loadDiagramLayout ::
  "AppConfig \<Rightarrow> error + DiagramModel \<Rightarrow> string \<Rightarrow> app \<Rightarrow> (error + DiagramModel) \<times> app" where
  "loadDiagramLayout cfg response diagramIri st =
     (if diagramIri = [] then (Inl (Error ''Please select a diagram''), st)
      else
        (let st1 = updateStatus_imported ''Loading diagram layout data...''
                     (setLoading_imported True st);
             st2 = clearSelection_imported (resetViewTransform_imported cfg st1);
             namespace = cimNamespace_imported cfg st2;
             st3 = st2\<lparr>remoteCalls := remoteCalls st2 @ [LayoutQuery diagramIri namespace]\<rparr>
         in case response of
              Inl (Error msg) \<Rightarrow>
                (Inl (Error msg),
                 setLoading_imported False (updateStatus_imported (''Error: '' @ msg) st3))
            | Inr diagram \<Rightarrow>
                (Inr diagram,
                 setLoading_imported False
                   (updateStatus_imported
                      (''Loaded diagram with '' @ string_of_nat (length (dm_objects diagram))
                         @ '' objects and '' @ string_of_nat (length (dm_points diagram))
                         @ '' points'')
                      (st3\<lparr>diagramData := Some diagram\<rparr>)))))"

subsection \<open>Inserting and deleting points\<close>

text \<open>
  \<open>newRef\<close> is the address at which \<open>new PointModel\<close> allocates, \<open>uuid\<close> the result of
  \<open>uuidv4()\<close>, \<open>failure\<close> the error with which the awaited \<open>insertNewPoint\<close> rejects, if
  it does. The function's promise never rejects: the result is the state it leaves.
\<close>

definition addNewPointToLine ::
  "AppConfig \<Rightarrow> pref \<Rightarrow> string \<Rightarrow> error option \<Rightarrow>
   oref option \<Rightarrow> Point2D option \<Rightarrow> int option \<Rightarrow> app \<Rightarrow> app" where
  "addNewPointToLine cfg newRef uuid failure object position insertIndex st =
     (case (object, position, insertIndex) of
        (Some obj, Some pos, Some idx) \<Rightarrow>
          (case diagramData st of
             None \<Rightarrow> st
           | Some currentDiagram \<Rightarrow>
               (let newPointIri = ''http://tempuri.org/point/'' @ uuid;
                    st1 = updateStatus ''Adding new point...'' (setLoading True st);
                    newPoint = \<lparr>pm_iri = newPointIri, pm_x = pt_x pos, pm_y = pt_y pos,
                                sequenceNumber = idx, parentObject = Some obj, pm_glued = []\<rparr>;
                    ps = splice_insert idx newRef (obj_points (objectStore st1 obj));
                    d2 = currentDiagram\<lparr>dm_points := dm_points currentDiagram @ [newRef]\<rparr>;
                    st2 = st1\<lparr>pointStore := renumber ps ((pointStore st1)(newRef := newPoint)),
                              objectStore := (objectStore st1)
                                (obj := (objectStore st1 obj)\<lparr>obj_points := ps\<rparr>),
                              diagramData := Some d2\<rparr>;
                    namespace = cimNamespace cfg st2;
                    pointUpdateData = \<lparr>np_iri = newPointIri,
                                       np_objectIri = obj_iri (objectStore st2 obj),
                                       np_x = pt_x pos, np_y = pt_y pos,
                                       np_sequenceNumber = idx\<rparr>;
                    sequenceUpdates =
                      map (\<lambda>r. (pm_iri (pointStore st2 r), sequenceNumber (pointStore st2 r))) ps;
                    st3 = st2\<lparr>remoteCalls := remoteCalls st2
                                @ [InsertNewPoint pointUpdateData sequenceUpdates namespace]\<rparr>
                in case failure of
                     None \<Rightarrow>
                       setLoading False
                         (togglePointSelection newPointIri
                            (clearSelection (updateStatus ''New point added'' st3)))
                   | Some (Error msg) \<Rightarrow>
                       (let st4 = updateStatus (''Error: '' @ msg) st3;
                            ps' = filter (\<lambda>r. pm_iri (pointStore st4 r) \<noteq> newPointIri)
                                    (obj_points (objectStore st4 obj));
                            store' = renumber ps' (pointStore st4);
                            dps' = filter (\<lambda>r. pm_iri (store' r) \<noteq> newPointIri) (dm_points d2)
                        in setLoading False
                             (st4\<lparr>pointStore := store',
                                   objectStore := (objectStore st4)
                                     (obj := (objectStore st4 obj)\<lparr>obj_points := ps'\<rparr>),
                                   diagramData := Some (d2\<lparr>dm_points := dps'\<rparr>)\<rparr>))))
      | _ \<Rightarrow> st)"

text \<open>
  \<open>failure\<close> is the error with which the awaited \<open>deletePoint\<close> rejects, if it does, and
  \<open>reload\<close> the response to the reload that follows such a failure. The function
  returns the error with which its own promise rejects, if it does, and the state it
  leaves.
\<close>

definition deletePointFromLine ::
  "AppConfig \<Rightarrow> error option \<Rightarrow> error + DiagramModel \<Rightarrow> pref option \<Rightarrow> app
   \<Rightarrow> error option \<times> app" where
  "deletePointFromLine cfg failure reload point st =
     (case point of
        None \<Rightarrow> (None, st)
      | Some p \<Rightarrow>
          (case diagramData st of
             None \<Rightarrow> (None, st)
           | Some currentDiagram \<Rightarrow>
               (case parentObject (pointStore st p) of
                  None \<Rightarrow> (None, updateStatus ''Cannot delete point: parent object not found'' st)
                | Some obj \<Rightarrow>
                    (let ps = obj_points (objectStore st obj);
                         pointIndex =
                           findIndex (\<lambda>r. pm_iri (pointStore st r) = pm_iri (pointStore st p)) ps
                     in if pointIndex = 0 \<or> pointIndex = int (length ps) - 1
                        then (None,
                              setLoading False
                                (updateStatus
                                   ''Cannot delete first or last point of a line or shape'' st))
                        else
                          (let st1 = updateStatus ''Deleting point...'' (setLoading True st);
                               ps' = splice_delete1 pointIndex ps;
                               store' = renumber ps' (pointStore st1);
                               diagramPointIndex =
                                 findIndex (\<lambda>r. pm_iri (store' r) = pm_iri (store' p))
                                   (dm_points currentDiagram);
                               dps' = (if diagramPointIndex \<ge> 0
                                       then splice_delete1 diagramPointIndex
                                              (dm_points currentDiagram)
                                       else dm_points currentDiagram);
                               st2 = st1\<lparr>pointStore := store',
                                         objectStore := (objectStore st1)
                                           (obj := (objectStore st1 obj)\<lparr>obj_points := ps'\<rparr>),
                                         diagramData :=
                                           Some (currentDiagram\<lparr>dm_points := dps'\<rparr>)\<rparr>;
                               namespace = cimNamespace cfg st2;
                               sequenceUpdates =
                                 map (\<lambda>r. (pm_iri (store' r), sequenceNumber (store' r))) ps';
                               st3 = st2\<lparr>remoteCalls := remoteCalls st2
                                           @ [DeletePoint (pm_iri (store' p)) sequenceUpdates
                                                namespace]\<rparr>
                           in case failure of
                                None \<Rightarrow>
                                  (let st4 = updateStatus ''Point deleted successfully'' st3;
                                       state = interactionState st4;
                                       st5 =
                                         (if set_has (selectedPoints state) (pm_iri (store' p))
                                          then st4\<lparr>interactionState :=
                                                     state\<lparr>selectedPoints :=
                                                       set_delete (selectedPoints state)
                                                         (pm_iri (store' p))\<rparr>\<rparr>
                                          else st4)
                                   in (None, setLoading False st5))
                              | Some (Error msg) \<Rightarrow>
                                  (let st4 = updateStatus (''Error: '' @ msg) st3;
                                       diagramIri = selectedDiagram st4
                                   in if diagramIri \<noteq> []
                                      then (case loadDiagramLayout cfg reload diagramIri st4 of
                                              (Inl e, st5) \<Rightarrow> (Some e, setLoading False st5)
                                            | (Inr d, st5) \<Rightarrow> (None, setLoading False st5))
                                      else (None, setLoading False st4)))))))"

section \<open>A sample diagram\<close>

text \<open>
  The configuration and the diagram used to run the operations on concrete inputs: the
  line O = [P0(0,0), P1(10,0), P2(10,10)] and the line Q = [Q0(10,10), Q1(20,10)],
  with P2 and Q0 glued to each other. Points live at the addresses 0 to 4, the two
  objects at the addresses 0 and 1.
\<close>

definition exampleConfig :: AppConfig where
  "exampleConfig =
     \<lparr>view_initialScale = 1, view_initialOffsetX = 0, view_initialOffsetY = 0,
      dragThreshold = 2,
      namespaces = (\<lambda>v. case v of V2_4_15 \<Rightarrow> ''cim16#'' | V3_0 \<Rightarrow> ''cim100#'')\<rparr>"

definition examplePoint :: "iri \<Rightarrow> real \<Rightarrow> real \<Rightarrow> int \<Rightarrow> oref \<Rightarrow> iri list \<Rightarrow> PointModel" where
  "examplePoint i a b k obj g =
     \<lparr>pm_iri = i, pm_x = a, pm_y = b, sequenceNumber = k, parentObject = Some obj,
      pm_glued = g\<rparr>"

definition exampleStore :: "pref \<Rightarrow> PointModel" where
  "exampleStore =
     (\<lambda>_. \<lparr>pm_iri = [], pm_x = 0, pm_y = 0, sequenceNumber = 0, parentObject = None,
           pm_glued = []\<rparr>)
       (0 := examplePoint ''P0'' 0 0 0 0 [],
        1 := examplePoint ''P1'' 10 0 1 0 [],
        2 := examplePoint ''P2'' 10 10 2 0 [''Q0''],
        3 := examplePoint ''Q0'' 10 10 0 1 [''P2''],
        4 := examplePoint ''Q1'' 20 10 1 1 [])"

definition exampleObjects :: "oref \<Rightarrow> DiagramObjectModel" where
  "exampleObjects =
     (\<lambda>_. \<lparr>obj_iri = [], obj_points = []\<rparr>)
       (0 := \<lparr>obj_iri = ''O'', obj_points = [0, 1, 2]\<rparr>,
        1 := \<lparr>obj_iri = ''Q'', obj_points = [3, 4]\<rparr>)"

definition exampleDiagram :: DiagramModel where
  "exampleDiagram = \<lparr>dm_objects = [0, 1], dm_points = [0, 1, 2, 3, 4]\<rparr>"

definition exampleState :: app where
  "exampleState =
     \<lparr>pointStore = exampleStore, objectStore = exampleObjects, cgmesVersion = V3_0,
      viewTransform = \<lparr>vt_scale = 1.0, offsetX = 0, offsetY = 0\<rparr>,
      diagramData = Some exampleDiagram, isLoading = False, statusText = ''Ready'',
      selectedDiagram = ''D'', interactionState = initialInteractionState,
      positionUpdateEvent = None, remoteCalls = []\<rparr>"

text \<open>The sample state with P2 selected and a drag begun at (0,0).\<close>

definition exampleDrag :: app where
  "exampleDrag = startDragging \<lparr>pt_x = 0, pt_y = 0\<rparr> (togglePointSelection ''P2'' exampleState)"

text \<open>The sample state with the selection rectangle from (-1,-1) to (12,12).\<close>

definition exampleSelect :: app where
  "exampleSelect =
     updateSelecting \<lparr>pt_x = 12, pt_y = 12\<rparr> (startSelecting \<lparr>pt_x = - 1, pt_y = - 1\<rparr> exampleState)"

text \<open>The drag of the sample state previewed at (5,0) and then at (1,1).\<close>

definition exampleDragged :: app where
  "exampleDragged =
     foldl (\<lambda>st q. updateDragging q st) exampleDrag [\<lparr>pt_x = 5, pt_y = 0\<rparr>, \<lparr>pt_x = 1, pt_y = 1\<rparr>]"

section \<open>Facts about the containers\<close>

lemma forEachPoint_Nil: "forEachPoint f [] s = s"
  by (simp add: forEachPoint_def)

lemma forEachPoint_Cons: "forEachPoint f (r # rs) s = forEachPoint f rs (s(r := f (s r)))"
  by (simp add: forEachPoint_def)

text \<open>
  An address may occur several times in an array; a callback that assigns values which
  do not depend on what it overwrites gives the same object however often it runs.
\<close>

lemma forEachPoint_apply:
  assumes idem: "\<And>p. f (f p) = f p"
  shows "forEachPoint f rs s r = (if r \<in> set rs then f (s r) else s r)"
proof (induction rs arbitrary: s)
  case Nil
  show ?case by (simp add: forEachPoint_Nil)
next
  case (Cons a rs)
  show ?case
    by (simp add: forEachPoint_Cons Cons.IH idem)
qed

lemma dragPoint_idem: "dragPoint cs dx dy (dragPoint cs dx dy p) = dragPoint cs dx dy p"
  by (simp add: dragPoint_def split: option.splits)

lemma revertPoint_idem: "revertPoint cs (revertPoint cs p) = revertPoint cs p"
  by (simp add: revertPoint_def split: option.splits)

lemma set_set_add: "set (set_add s a) = insert a (set s)"
  by (auto simp: set_add_def)

lemma set_foldl_selectInside:
  "set (foldl (selectInside x0 y0 x1 y1 s) sel rs) =
     set sel \<union> {pm_iri (s r) | r. r \<in> set rs \<and> x0 \<le> pm_x (s r) \<and> pm_x (s r) \<le> x1
                                  \<and> y0 \<le> pm_y (s r) \<and> pm_y (s r) \<le> y1}"
proof (induction rs arbitrary: sel)
  case Nil
  show ?case by simp
next
  case (Cons a rs)
  have "set (selectInside x0 y0 x1 y1 s sel a) =
          set sel \<union> {pm_iri (s r) | r. r = a \<and> x0 \<le> pm_x (s r) \<and> pm_x (s r) \<le> x1
                                  \<and> y0 \<le> pm_y (s r) \<and> pm_y (s r) \<le> y1}"
    by (auto simp: selectInside_def Let_def set_set_add)
  then show ?case
    unfolding foldl_Cons Cons.IH by auto
qed

lemma exampleSelect_state:
  "diagramData exampleSelect = Some exampleDiagram"
  "mode (interactionState exampleSelect) = SELECTING"
  "dragStart (interactionState exampleSelect) = Some \<lparr>pt_x = - 1, pt_y = - 1\<rparr>"
  "dragEnd (interactionState exampleSelect) = Some \<lparr>pt_x = 12, pt_y = 12\<rparr>"
  "selectedPoints (interactionState exampleSelect) = []"
  "pointStore exampleSelect = exampleStore"
  by (simp_all add: exampleSelect_def updateSelecting_def startSelecting_def exampleState_def
      initialInteractionState_def)

section \<open>Facts about dragging\<close>

lemma dom_foldl_snapshotPoint:
  "dom (foldl (snapshotPoint cs s) m rs) =
     dom m \<union> {pm_iri (s r) | r. r \<in> set rs \<and> pm_iri (s r) \<in> set (selectedPoints cs)}"
proof (induction rs arbitrary: m)
  case Nil
  show ?case by simp
next
  case (Cons a rs)
  have "dom (snapshotPoint cs s m a) =
          dom m \<union> {pm_iri (s r) | r. r = a \<and> pm_iri (s r) \<in> set (selectedPoints cs)}"
    by (auto simp: snapshotPoint_def Let_def set_has_def)
  then show ?case
    unfolding foldl_Cons Cons.IH by auto
qed

lemma foldl_snapshotPoint_value:
  assumes "inj_on (\<lambda>r. pm_iri (s r)) (set rs)"
    and "r \<in> set rs"
    and "pm_iri (s r) \<in> set (selectedPoints cs)"
  shows "foldl (snapshotPoint cs s) m rs (pm_iri (s r)) = Some \<lparr>pt_x = pm_x (s r), pt_y = pm_y (s r)\<rparr>"
  using assms
proof (induction rs rule: rev_induct)
  case Nil
  then show ?case by simp
next
  case (snoc a rs)
  show ?case
  proof (cases "r = a")
    case True
    with snoc.prems show ?thesis
      by (simp add: snapshotPoint_def Let_def set_has_def)
  next
    case False
    with snoc.prems have rin: "r \<in> set rs" by simp
    from snoc.prems(1) have inj: "inj_on (\<lambda>r. pm_iri (s r)) (set rs)"
      by (simp add: inj_on_def)
    from snoc.prems(1) rin False have ne: "pm_iri (s a) \<noteq> pm_iri (s r)"
      by (auto simp: inj_on_def)
    from snoc.IH [OF inj rin snoc.prems(3)] ne show ?thesis
      by (simp add: snapshotPoint_def Let_def)
  qed
qed

lemma startDragging_state:
  assumes "diagramData st = Some d"
  shows "diagramData (startDragging p st) = Some d"
    and "pointStore (startDragging p st) = pointStore st"
    and "mode (interactionState (startDragging p st)) = DRAGGING"
    and "dragStart (interactionState (startDragging p st)) = Some p"
    and "selectedPoints (interactionState (startDragging p st)) = selectedPoints (interactionState st)"
    and "originalPositions (interactionState (startDragging p st)) =
           foldl (snapshotPoint (interactionState st) (pointStore st)) Map.empty (dm_points d)"
  using assms by (simp_all add: startDragging_def Let_def)

lemma updateDragging_state:
  assumes "diagramData st = Some d"
    and "mode (interactionState st) = DRAGGING"
    and "dragStart (interactionState st) = Some s"
  shows "updateDragging p st =
           st\<lparr>pointStore := forEachPoint
                 (dragPoint (interactionState st) (pt_x p - pt_x s) (pt_y p - pt_y s))
                 (dm_points d) (pointStore st),
               interactionState := (interactionState st)\<lparr>dragEnd := Some p\<rparr>\<rparr>"
  using assms by (simp add: updateDragging_def Let_def)

lemma endDragging_insignificant:
  assumes "mode (interactionState st) = DRAGGING"
    and "dragStart (interactionState st) = Some s"
    and "\<bar>pt_x p - pt_x s\<bar> \<le> dragThreshold cfg"
    and "\<bar>pt_y p - pt_y s\<bar> \<le> dragThreshold cfg"
  shows "endDragging cfg p st =
           (None, revertDraggedPositions
                    (st\<lparr>interactionState := (interactionState st)
                          \<lparr>mode := NONE, dragStart := None, dragEnd := None\<rparr>\<rparr>))"
  using assms by (simp add: endDragging_def Let_def)

lemma revertDraggedPositions_store:
  "pointStore (revertDraggedPositions st) r =
     (case diagramData st of
        None \<Rightarrow> pointStore st r
      | Some d \<Rightarrow> if r \<in> set (dm_points d)
                  then revertPoint (interactionState st) (pointStore st r)
                  else pointStore st r)"
  by (simp add: revertDraggedPositions_def forEachPoint_apply [OF revertPoint_idem]
      split: option.splits)

lemma revertDraggedPositions_rest:
  "interactionState (revertDraggedPositions st) = interactionState st"
  "positionUpdateEvent (revertDraggedPositions st) = positionUpdateEvent st"
  "remoteCalls (revertDraggedPositions st) = remoteCalls st"
  "diagramData (revertDraggedPositions st) = diagramData st"
  by (simp_all add: revertDraggedPositions_def split: option.splits)

text \<open>The live preview of a drag changes coordinates of selected points of the diagram only.\<close>

lemma drag_preview_invariant:
  assumes "diagramData st = Some d"
    and "mode (interactionState st) = DRAGGING"
    and "dragStart (interactionState st) = Some s"
    and "\<forall>r. \<exists>a b. pointStore st r = (s0 r)\<lparr>pm_x := a, pm_y := b\<rparr>"
    and "\<forall>r. \<not> (r \<in> set (dm_points d) \<and> pm_iri (s0 r) \<in> set (selectedPoints (interactionState st)))
           \<longrightarrow> pointStore st r = s0 r"
  shows "diagramData (foldl (\<lambda>st q. updateDragging q st) st qs) = Some d
       \<and> mode (interactionState (foldl (\<lambda>st q. updateDragging q st) st qs)) = DRAGGING
       \<and> dragStart (interactionState (foldl (\<lambda>st q. updateDragging q st) st qs)) = Some s
       \<and> selectedPoints (interactionState (foldl (\<lambda>st q. updateDragging q st) st qs))
           = selectedPoints (interactionState st)
       \<and> originalPositions (interactionState (foldl (\<lambda>st q. updateDragging q st) st qs))
           = originalPositions (interactionState st)
       \<and> (\<forall>r. \<exists>a b. pointStore (foldl (\<lambda>st q. updateDragging q st) st qs) r
                       = (s0 r)\<lparr>pm_x := a, pm_y := b\<rparr>)
       \<and> (\<forall>r. \<not> (r \<in> set (dm_points d)
                   \<and> pm_iri (s0 r) \<in> set (selectedPoints (interactionState st)))
              \<longrightarrow> pointStore (foldl (\<lambda>st q. updateDragging q st) st qs) r = s0 r)"
  using assms
proof (induction qs arbitrary: st)
  case Nil
  then show ?case by simp
next
  case (Cons q qs)
  let ?st1 = "updateDragging q st"
  have eq: "?st1 = st\<lparr>pointStore := forEachPoint
                 (dragPoint (interactionState st) (pt_x q - pt_x s) (pt_y q - pt_y s))
                 (dm_points d) (pointStore st),
               interactionState := (interactionState st)\<lparr>dragEnd := Some q\<rparr>\<rparr>"
    by (rule updateDragging_state [OF Cons.prems(1-3)])
  have store1: "pointStore ?st1 r =
      (if r \<in> set (dm_points d)
       then dragPoint (interactionState st) (pt_x q - pt_x s) (pt_y q - pt_y s) (pointStore st r)
       else pointStore st r)" for r
    by (simp add: eq forEachPoint_apply [OF dragPoint_idem])
  have iri_st: "pm_iri (pointStore st r) = pm_iri (s0 r)" for r
  proof -
    from Cons.prems(4) obtain a b where "pointStore st r = (s0 r)\<lparr>pm_x := a, pm_y := b\<rparr>"
      by blast
    then show ?thesis by simp
  qed
  have h1: "diagramData ?st1 = Some d" by (simp add: eq Cons.prems)
  have h2: "mode (interactionState ?st1) = DRAGGING" by (simp add: eq Cons.prems)
  have h3: "dragStart (interactionState ?st1) = Some s" by (simp add: eq Cons.prems)
  have sel1: "selectedPoints (interactionState ?st1) = selectedPoints (interactionState st)"
    by (simp add: eq)
  have op1: "originalPositions (interactionState ?st1) = originalPositions (interactionState st)"
    by (simp add: eq)
  have h4: "\<forall>r. \<exists>a b. pointStore ?st1 r = (s0 r)\<lparr>pm_x := a, pm_y := b\<rparr>"
  proof
    fix r
    from Cons.prems(4) obtain a b where ab: "pointStore st r = (s0 r)\<lparr>pm_x := a, pm_y := b\<rparr>"
      by blast
    show "\<exists>a b. pointStore ?st1 r = (s0 r)\<lparr>pm_x := a, pm_y := b\<rparr>"
      unfolding store1 dragPoint_def ab
      by (auto split: option.splits)
  qed
  have h5: "\<forall>r. \<not> (r \<in> set (dm_points d)
                   \<and> pm_iri (s0 r) \<in> set (selectedPoints (interactionState ?st1)))
              \<longrightarrow> pointStore ?st1 r = s0 r"
  proof (intro allI impI)
    fix r
    assume n: "\<not> (r \<in> set (dm_points d)
                   \<and> pm_iri (s0 r) \<in> set (selectedPoints (interactionState ?st1)))"
    with sel1 Cons.prems(5) have same: "pointStore st r = s0 r" by simp
    from n sel1 show "pointStore ?st1 r = s0 r"
      by (auto simp: store1 dragPoint_def set_has_def same)
  qed
  from Cons.IH [OF h1 h2 h3 h4 h5] show ?case
    by (simp add: sel1 op1)
qed

section \<open>Drag calls outside a drag\<close>

text \<open>
  Claim C10. When the mode is not DRAGGING, or when \<open>dragStart\<close> is null,
  \<open>updateDragging\<close> and \<open>endDragging\<close> leave the whole state as it is (the points, the
  interaction state, the view transform, the position-update event and every other
  store), and \<open>endDragging\<close> returns null.
\<close>

theorem drag_calls_outside_drag_noop:
  assumes "mode (interactionState st) \<noteq> DRAGGING \<or> dragStart (interactionState st) = None"
  shows "updateDragging p st = st \<and> endDragging cfg p st = (None, st)"
  using assms
  by (auto simp: updateDragging_def endDragging_def Let_def split: option.splits)

theorem drag_calls_outside_drag_noop_witness:
  "mode (interactionState exampleSelect) \<noteq> DRAGGING
   \<and> updateDragging \<lparr>pt_x = 5, pt_y = 0\<rparr> exampleSelect = exampleSelect
   \<and> endDragging exampleConfig \<lparr>pt_x = 5, pt_y = 0\<rparr> exampleSelect = (None, exampleSelect)
   \<and> dragStart (interactionState (endPanning (startDragging \<lparr>pt_x = 0, pt_y = 0\<rparr> exampleState)))
       = Some \<lparr>pt_x = 0, pt_y = 0\<rparr>
   \<and> updateDragging \<lparr>pt_x = 5, pt_y = 0\<rparr>
         (endPanning (startDragging \<lparr>pt_x = 0, pt_y = 0\<rparr> exampleState))
       = endPanning (startDragging \<lparr>pt_x = 0, pt_y = 0\<rparr> exampleState)"
proof -
  have h: "mode (interactionState exampleSelect) \<noteq> DRAGGING"
    by (simp add: exampleSelect_def updateSelecting_def startSelecting_def)
  then have h': "mode (interactionState exampleSelect) \<noteq> DRAGGING
             \<or> dragStart (interactionState exampleSelect) = None"
    by simp
  have g: "mode (interactionState (endPanning (startDragging \<lparr>pt_x = 0, pt_y = 0\<rparr> exampleState)))
             \<noteq> DRAGGING"
    and s: "dragStart (interactionState
              (endPanning (startDragging \<lparr>pt_x = 0, pt_y = 0\<rparr> exampleState)))
             = Some \<lparr>pt_x = 0, pt_y = 0\<rparr>"
    by (simp_all add: endPanning_def startDragging_def exampleState_def Let_def)
  from g have g': "mode (interactionState
                     (endPanning (startDragging \<lparr>pt_x = 0, pt_y = 0\<rparr> exampleState)))
             \<noteq> DRAGGING
             \<or> dragStart (interactionState
                   (endPanning (startDragging \<lparr>pt_x = 0, pt_y = 0\<rparr> exampleState))) = None"
    by simp
  from drag_calls_outside_drag_noop [OF h'] drag_calls_outside_drag_noop [OF g'] h s
  show ?thesis
    by simp
qed

section \<open>Committing a rectangle selection\<close>

text \<open>
  Claim C5. A rectangle selection is committed by \<open>completeSelecting\<close> in mode
  SELECTING with both corners set and a diagram loaded. When the rectangle spanned by
  \<open>dragStart\<close> and \<open>dragEnd\<close> has width at most 3 or height at most 3, the selection
  is left as it is. Otherwise the new selection holds the old selection and the
  identifier of every point of the diagram with \<open>minX \<le> x \<le> maxX\<close> and
  \<open>minY \<le> y \<le> maxY\<close>, and nothing else. In both cases no selected point is
  removed, the mode returns to NONE and no point is changed.
\<close>

theorem completeSelecting_additive:
  assumes "diagramData st = Some d"
    and "mode (interactionState st) = SELECTING"
    and "dragStart (interactionState st) = Some a"
    and "dragEnd (interactionState st) = Some b"
  shows "(if max (pt_x a) (pt_x b) - min (pt_x a) (pt_x b) \<le> 3
             \<or> max (pt_y a) (pt_y b) - min (pt_y a) (pt_y b) \<le> 3
          then selectedPoints (interactionState (completeSelecting st))
                 = selectedPoints (interactionState st)
          else set (selectedPoints (interactionState (completeSelecting st)))
                 = set (selectedPoints (interactionState st))
                   \<union> {pm_iri (pointStore st r) | r. r \<in> set (dm_points d)
                        \<and> min (pt_x a) (pt_x b) \<le> pm_x (pointStore st r)
                        \<and> pm_x (pointStore st r) \<le> max (pt_x a) (pt_x b)
                        \<and> min (pt_y a) (pt_y b) \<le> pm_y (pointStore st r)
                        \<and> pm_y (pointStore st r) \<le> max (pt_y a) (pt_y b)})
       \<and> set (selectedPoints (interactionState st))
           \<subseteq> set (selectedPoints (interactionState (completeSelecting st)))
       \<and> mode (interactionState (completeSelecting st)) = NONE
       \<and> pointStore (completeSelecting st) = pointStore st"
proof -
  have w: "\<bar>max (pt_x a) (pt_x b) - min (pt_x a) (pt_x b)\<bar>
             = max (pt_x a) (pt_x b) - min (pt_x a) (pt_x b)"
    by (simp add: max_def min_def)
  have h: "\<bar>max (pt_y a) (pt_y b) - min (pt_y a) (pt_y b)\<bar>
             = max (pt_y a) (pt_y b) - min (pt_y a) (pt_y b)"
    by (simp add: max_def min_def)
  show ?thesis
    using assms
    by (simp add: completeSelecting_def Let_def w h set_foldl_selectInside)
qed

theorem completeSelecting_additive_witness:
  "diagramData exampleSelect = Some exampleDiagram
   \<and> mode (interactionState exampleSelect) = SELECTING
   \<and> dragStart (interactionState exampleSelect) = Some \<lparr>pt_x = - 1, pt_y = - 1\<rparr>
   \<and> dragEnd (interactionState exampleSelect) = Some \<lparr>pt_x = 12, pt_y = 12\<rparr>
   \<and> set (selectedPoints (interactionState (completeSelecting exampleSelect)))
       = {pm_iri (exampleStore r) | r. r \<in> set (dm_points exampleDiagram)
            \<and> - 1 \<le> pm_x (exampleStore r) \<and> pm_x (exampleStore r) \<le> 12
            \<and> - 1 \<le> pm_y (exampleStore r) \<and> pm_y (exampleStore r) \<le> 12}
   \<and> mode (interactionState (completeSelecting exampleSelect)) = NONE"
  using completeSelecting_additive [OF exampleSelect_state(1-4)]
  by (simp add: exampleSelect_state)

section \<open>The sample drag\<close>

lemma exampleToggled_state:
  "diagramData (togglePointSelection ''P2'' exampleState) = Some exampleDiagram"
  "pointStore (togglePointSelection ''P2'' exampleState) = exampleStore"
  "selectedPoints (interactionState (togglePointSelection ''P2'' exampleState)) = [''P2'']"
  by (simp_all add: togglePointSelection_def exampleState_def initialInteractionState_def
      set_has_def set_add_def Let_def)

lemma exampleStore_inj: "inj_on (\<lambda>r. pm_iri (exampleStore r)) (set (dm_points exampleDiagram))"
  by (simp add: exampleDiagram_def exampleStore_def examplePoint_def)

lemma exampleDrag_state:
  "diagramData exampleDrag = Some exampleDiagram"
  "pointStore exampleDrag = exampleStore"
  "mode (interactionState exampleDrag) = DRAGGING"
  "dragStart (interactionState exampleDrag) = Some \<lparr>pt_x = 0, pt_y = 0\<rparr>"
  "selectedPoints (interactionState exampleDrag) = [''P2'']"
  unfolding exampleDrag_def
  by (simp_all add: startDragging_state [OF exampleToggled_state(1)] exampleToggled_state)

lemma exampleDrag_snapshot:
  "originalPositions (interactionState exampleDrag) = [''P2'' \<mapsto> \<lparr>pt_x = 10, pt_y = 10\<rparr>]"
  unfolding exampleDrag_def
  by (simp add: startDragging_state [OF exampleToggled_state(1)] exampleToggled_state
      exampleDiagram_def snapshotPoint_def set_has_def exampleStore_def examplePoint_def Let_def)

lemma exampleDragged_state:
  "mode (interactionState exampleDragged) = DRAGGING"
  "dragStart (interactionState exampleDragged) = Some \<lparr>pt_x = 0, pt_y = 0\<rparr>"
  "diagramData exampleDragged = Some exampleDiagram"
proof -
  let ?u = "updateDragging \<lparr>pt_x = 5, pt_y = 0\<rparr> exampleDrag"
  note u = updateDragging_state [OF exampleDrag_state(1,3,4), of "\<lparr>pt_x = 5, pt_y = 0\<rparr>"]
  have u1: "diagramData ?u = Some exampleDiagram"
    and u2: "mode (interactionState ?u) = DRAGGING"
    and u3: "dragStart (interactionState ?u) = Some \<lparr>pt_x = 0, pt_y = 0\<rparr>"
    by (simp_all add: u exampleDrag_state)
  note v = updateDragging_state [OF u1 u2 u3, of "\<lparr>pt_x = 1, pt_y = 1\<rparr>"]
  have e: "exampleDragged = updateDragging \<lparr>pt_x = 1, pt_y = 1\<rparr> ?u"
    by (simp add: exampleDragged_def)
  show "mode (interactionState exampleDragged) = DRAGGING"
    unfolding e by (simp add: v u2)
  show "dragStart (interactionState exampleDragged) = Some \<lparr>pt_x = 0, pt_y = 0\<rparr>"
    unfolding e by (simp add: v u3)
  show "diagramData exampleDragged = Some exampleDiagram"
    unfolding e by (simp add: v u1)
qed

section \<open>Committing a drag below the threshold\<close>

text \<open>
  Claim C1. When \<open>endDragging\<close> is called in mode DRAGGING with a final delta
  \<open>(dx, dy) = position - dragStart\<close> such that \<open>|dx| \<le> dragThreshold\<close> and
  \<open>|dy| \<le> dragThreshold\<close>, it returns null, sets no position-update event and makes
  no remote call, the mode is NONE and \<open>dragStart\<close> and \<open>dragEnd\<close> are null, and every
  selected point of the diagram is back at its snapshot. For a gesture, that is
  \<open>startDragging\<close> followed by any number of \<open>updateDragging\<close> calls on a diagram
  whose points have distinct identifiers, every point is afterwards exactly as it was
  before the drag started.
\<close>

theorem endDragging_below_threshold:
  assumes "mode (interactionState st) = DRAGGING"
    and "dragStart (interactionState st) = Some s"
    and "\<bar>pt_x p - pt_x s\<bar> \<le> dragThreshold cfg"
    and "\<bar>pt_y p - pt_y s\<bar> \<le> dragThreshold cfg"
  shows "fst (endDragging cfg p st) = None
       \<and> mode (interactionState (snd (endDragging cfg p st))) = NONE
       \<and> dragStart (interactionState (snd (endDragging cfg p st))) = None
       \<and> dragEnd (interactionState (snd (endDragging cfg p st))) = None
       \<and> positionUpdateEvent (snd (endDragging cfg p st)) = positionUpdateEvent st
       \<and> remoteCalls (snd (endDragging cfg p st)) = remoteCalls st
       \<and> (\<forall>d r original.
             diagramData st = Some d \<and> r \<in> set (dm_points d)
             \<and> pm_iri (pointStore st r) \<in> set (selectedPoints (interactionState st))
             \<and> originalPositions (interactionState st) (pm_iri (pointStore st r)) = Some original
             \<longrightarrow> pm_x (pointStore (snd (endDragging cfg p st)) r) = pt_x original
               \<and> pm_y (pointStore (snd (endDragging cfg p st)) r) = pt_y original)
       \<and> (\<forall>st0 d p0 qs.
             diagramData st0 = Some d
             \<and> inj_on (\<lambda>r. pm_iri (pointStore st0 r)) (set (dm_points d))
             \<and> st = foldl (\<lambda>st q. updateDragging q st) (startDragging p0 st0) qs
             \<longrightarrow> pointStore (snd (endDragging cfg p st)) = pointStore st0)"
proof -
  let ?st1 = "st\<lparr>interactionState := (interactionState st)
                          \<lparr>mode := NONE, dragStart := None, dragEnd := None\<rparr>\<rparr>"
  have e: "endDragging cfg p st = (None, revertDraggedPositions ?st1)"
    by (rule endDragging_insignificant [OF assms])
  have store: "pointStore (snd (endDragging cfg p st)) r =
     (case diagramData st of
        None \<Rightarrow> pointStore st r
      | Some d \<Rightarrow> if r \<in> set (dm_points d)
                  then revertPoint (interactionState st) (pointStore st r)
                  else pointStore st r)" for r
    by (simp add: e revertDraggedPositions_store revertPoint_def split: option.splits)
  have a: "fst (endDragging cfg p st) = None" by (simp add: e)
  have b: "mode (interactionState (snd (endDragging cfg p st))) = NONE
       \<and> dragStart (interactionState (snd (endDragging cfg p st))) = None
       \<and> dragEnd (interactionState (snd (endDragging cfg p st))) = None
       \<and> positionUpdateEvent (snd (endDragging cfg p st)) = positionUpdateEvent st
       \<and> remoteCalls (snd (endDragging cfg p st)) = remoteCalls st"
    by (simp add: e revertDraggedPositions_rest)
  have c: "\<forall>d r original.
             diagramData st = Some d \<and> r \<in> set (dm_points d)
             \<and> pm_iri (pointStore st r) \<in> set (selectedPoints (interactionState st))
             \<and> originalPositions (interactionState st) (pm_iri (pointStore st r)) = Some original
             \<longrightarrow> pm_x (pointStore (snd (endDragging cfg p st)) r) = pt_x original
               \<and> pm_y (pointStore (snd (endDragging cfg p st)) r) = pt_y original"
    by (simp add: store revertPoint_def set_has_def)
  have g: "\<forall>st0 d p0 qs.
             diagramData st0 = Some d
             \<and> inj_on (\<lambda>r. pm_iri (pointStore st0 r)) (set (dm_points d))
             \<and> st = foldl (\<lambda>st q. updateDragging q st) (startDragging p0 st0) qs
             \<longrightarrow> pointStore (snd (endDragging cfg p st)) = pointStore st0"
  proof (intro allI impI)
    fix st0 d p0 qs
    assume h: "diagramData st0 = Some d
             \<and> inj_on (\<lambda>r. pm_iri (pointStore st0 r)) (set (dm_points d))
             \<and> st = foldl (\<lambda>st q. updateDragging q st) (startDragging p0 st0) qs"
    then have d0: "diagramData st0 = Some d"
      and inj: "inj_on (\<lambda>r. pm_iri (pointStore st0 r)) (set (dm_points d))"
      and st: "st = foldl (\<lambda>st q. updateDragging q st) (startDragging p0 st0) qs"
      by simp_all
    note sd = startDragging_state [OF d0, of p0]
    have p4: "\<forall>r. \<exists>a b. pointStore (startDragging p0 st0) r = (pointStore st0 r)\<lparr>pm_x := a, pm_y := b\<rparr>"
    proof
      fix r
      have "pointStore (startDragging p0 st0) r
              = (pointStore st0 r)\<lparr>pm_x := pm_x (pointStore st0 r), pm_y := pm_y (pointStore st0 r)\<rparr>"
        by (simp add: sd(2))
      then show "\<exists>a b. pointStore (startDragging p0 st0) r = (pointStore st0 r)\<lparr>pm_x := a, pm_y := b\<rparr>"
        by blast
    qed
    have p5: "\<forall>r. \<not> (r \<in> set (dm_points d)
                 \<and> pm_iri (pointStore st0 r) \<in> set (selectedPoints (interactionState (startDragging p0 st0))))
           \<longrightarrow> pointStore (startDragging p0 st0) r = pointStore st0 r"
      by (simp add: sd(2))
    from drag_preview_invariant [OF sd(1) sd(3) sd(4) p4 p5, of qs]
    have i1: "diagramData st = Some d"
      and i4: "selectedPoints (interactionState st) = selectedPoints (interactionState st0)"
      and i5: "originalPositions (interactionState st) =
                 foldl (snapshotPoint (interactionState st0) (pointStore st0)) Map.empty (dm_points d)"
      and i6: "\<forall>r. \<exists>a b. pointStore st r = (pointStore st0 r)\<lparr>pm_x := a, pm_y := b\<rparr>"
      and i7: "\<forall>r. \<not> (r \<in> set (dm_points d)
                   \<and> pm_iri (pointStore st0 r) \<in> set (selectedPoints (interactionState st0)))
              \<longrightarrow> pointStore st r = pointStore st0 r"
      by (simp_all add: st [symmetric] sd(5) sd(6))
    show "pointStore (snd (endDragging cfg p st)) = pointStore st0"
    proof
      fix r
      from i6 obtain a b where ab: "pointStore st r = (pointStore st0 r)\<lparr>pm_x := a, pm_y := b\<rparr>"
        by blast
      show "pointStore (snd (endDragging cfg p st)) r = pointStore st0 r"
      proof (cases "r \<in> set (dm_points d) \<and> pm_iri (pointStore st0 r) \<in> set (selectedPoints (interactionState st0))")
        case True
        then have rin: "r \<in> set (dm_points d)"
          and sel: "pm_iri (pointStore st0 r) \<in> set (selectedPoints (interactionState st0))"
          by simp_all
        have "originalPositions (interactionState st) (pm_iri (pointStore st0 r))
                = Some \<lparr>pt_x = pm_x (pointStore st0 r), pt_y = pm_y (pointStore st0 r)\<rparr>"
          unfolding i5 by (rule foldl_snapshotPoint_value [OF inj rin sel])
        then show ?thesis
          by (simp add: store i1 rin revertPoint_def set_has_def i4 sel ab)
      next
        case False
        with i7 have same: "pointStore st r = pointStore st0 r" by blast
        from False show ?thesis
          by (auto simp: store i1 revertPoint_def set_has_def i4 same)
      qed
    qed
  qed
  from a b c g show ?thesis by blast
qed

theorem endDragging_below_threshold_witness:
  "mode (interactionState exampleDragged) = DRAGGING
   \<and> dragStart (interactionState exampleDragged) = Some \<lparr>pt_x = 0, pt_y = 0\<rparr>
   \<and> \<bar>pt_x \<lparr>pt_x = 1, pt_y = 1\<rparr> - pt_x \<lparr>pt_x = 0, pt_y = 0\<rparr>\<bar> \<le> dragThreshold exampleConfig
   \<and> \<bar>pt_y \<lparr>pt_x = 1, pt_y = 1\<rparr> - pt_y \<lparr>pt_x = 0, pt_y = 0\<rparr>\<bar> \<le> dragThreshold exampleConfig
   \<and> fst (endDragging exampleConfig \<lparr>pt_x = 1, pt_y = 1\<rparr> exampleDragged) = None
   \<and> mode (interactionState (snd (endDragging exampleConfig \<lparr>pt_x = 1, pt_y = 1\<rparr> exampleDragged))) = NONE
   \<and> pointStore (snd (endDragging exampleConfig \<lparr>pt_x = 1, pt_y = 1\<rparr> exampleDragged)) = exampleStore"
proof -
  have h3: "\<bar>pt_x \<lparr>pt_x = 1, pt_y = 1\<rparr> - pt_x \<lparr>pt_x = 0, pt_y = 0\<rparr>\<bar> \<le> dragThreshold exampleConfig"
    by (simp add: exampleConfig_def)
  have h4: "\<bar>pt_y \<lparr>pt_x = 1, pt_y = 1\<rparr> - pt_y \<lparr>pt_x = 0, pt_y = 0\<rparr>\<bar> \<le> dragThreshold exampleConfig"
    by (simp add: exampleConfig_def)
  note t = endDragging_below_threshold [OF exampleDragged_state(1,2) h3 h4]
  have g: "diagramData (togglePointSelection ''P2'' exampleState) = Some exampleDiagram
           \<and> inj_on (\<lambda>r. pm_iri (pointStore (togglePointSelection ''P2'' exampleState) r))
                (set (dm_points exampleDiagram))
           \<and> exampleDragged = foldl (\<lambda>st q. updateDragging q st)
                (startDragging \<lparr>pt_x = 0, pt_y = 0\<rparr> (togglePointSelection ''P2'' exampleState))
                [\<lparr>pt_x = 5, pt_y = 0\<rparr>, \<lparr>pt_x = 1, pt_y = 1\<rparr>]"
    by (simp add: exampleToggled_state exampleStore_inj exampleDragged_def exampleDrag_def)
  from t g have "pointStore (snd (endDragging exampleConfig \<lparr>pt_x = 1, pt_y = 1\<rparr> exampleDragged))
                  = pointStore (togglePointSelection ''P2'' exampleState)"
    by blast
  with t h3 h4 exampleDragged_state show ?thesis
    by (simp add: exampleToggled_state)
qed

section \<open>The live preview of a drag\<close>

text \<open>
  Claim C2, amended. When \<open>updateDragging\<close> is called with pointer position \<open>p\<close> in
  mode DRAGGING with \<open>dragStart = s\<close> and a diagram loaded, and \<open>delta = p - s\<close>: every
  point of the diagram that is selected and has a snapshot gets the coordinates
  snapshot plus delta and keeps its other fields; every point that is not selected
  stays exactly as it is, whether or not it is glued to a selected point (AppState.ts
  has no glue propagation and no grid snapping); \<open>dragEnd\<close> becomes \<open>p\<close> and the rest
  of the interaction state is unchanged.
\<close>

theorem updateDragging_selected_only:
  assumes "diagramData st = Some d"
    and "mode (interactionState st) = DRAGGING"
    and "dragStart (interactionState st) = Some s"
  shows "interactionState (updateDragging p st) = (interactionState st)\<lparr>dragEnd := Some p\<rparr>
       \<and> (\<forall>r original.
             r \<in> set (dm_points d)
             \<and> pm_iri (pointStore st r) \<in> set (selectedPoints (interactionState st))
             \<and> originalPositions (interactionState st) (pm_iri (pointStore st r)) = Some original
             \<longrightarrow> pointStore (updateDragging p st) r =
                   (pointStore st r)\<lparr>pm_x := pt_x original + (pt_x p - pt_x s),
                                     pm_y := pt_y original + (pt_y p - pt_y s)\<rparr>)
       \<and> (\<forall>r. pm_iri (pointStore st r) \<notin> set (selectedPoints (interactionState st))
             \<longrightarrow> pointStore (updateDragging p st) r = pointStore st r)"
  by (simp add: updateDragging_state [OF assms] forEachPoint_apply [OF dragPoint_idem]
      dragPoint_def set_has_def)

theorem updateDragging_selected_only_witness:
  "diagramData exampleDrag = Some exampleDiagram
   \<and> mode (interactionState exampleDrag) = DRAGGING
   \<and> dragStart (interactionState exampleDrag) = Some \<lparr>pt_x = 0, pt_y = 0\<rparr>
   \<and> dragEnd (interactionState (updateDragging \<lparr>pt_x = 5, pt_y = 0\<rparr> exampleDrag))
       = Some \<lparr>pt_x = 5, pt_y = 0\<rparr>
   \<and> pointStore (updateDragging \<lparr>pt_x = 5, pt_y = 0\<rparr> exampleDrag) 2
       = (exampleStore 2)\<lparr>pm_x := 15, pm_y := 10\<rparr>
   \<and> pointStore (updateDragging \<lparr>pt_x = 5, pt_y = 0\<rparr> exampleDrag) 3 = exampleStore 3"
proof -
  note t = updateDragging_selected_only [OF exampleDrag_state(1,3,4), of "\<lparr>pt_x = 5, pt_y = 0\<rparr>"]
  have a: "2 \<in> set (dm_points exampleDiagram)
           \<and> pm_iri (pointStore exampleDrag 2) \<in> set (selectedPoints (interactionState exampleDrag))
           \<and> originalPositions (interactionState exampleDrag) (pm_iri (pointStore exampleDrag 2))
               = Some \<lparr>pt_x = 10, pt_y = 10\<rparr>"
    by (simp add: exampleDrag_state exampleDrag_snapshot exampleDiagram_def exampleStore_def
        examplePoint_def)
  have b: "pm_iri (pointStore exampleDrag 3) \<notin> set (selectedPoints (interactionState exampleDrag))"
    by (simp add: exampleDrag_state exampleStore_def examplePoint_def)
  from t a have "pointStore (updateDragging \<lparr>pt_x = 5, pt_y = 0\<rparr> exampleDrag) 2 =
      (pointStore exampleDrag 2)\<lparr>pm_x := pt_x \<lparr>pt_x = 10, pt_y = 10\<rparr> + (pt_x \<lparr>pt_x = 5, pt_y = 0\<rparr> - pt_x \<lparr>pt_x = 0, pt_y = 0\<rparr>),
          pm_y := pt_y \<lparr>pt_x = 10, pt_y = 10\<rparr> + (pt_y \<lparr>pt_x = 5, pt_y = 0\<rparr> - pt_y \<lparr>pt_x = 0, pt_y = 0\<rparr>)\<rparr>"
    by blast
  moreover from t b have "pointStore (updateDragging \<lparr>pt_x = 5, pt_y = 0\<rparr> exampleDrag) 3
      = pointStore exampleDrag 3"
    by blast
  moreover from t have "dragEnd (interactionState (updateDragging \<lparr>pt_x = 5, pt_y = 0\<rparr> exampleDrag))
       = Some \<lparr>pt_x = 5, pt_y = 0\<rparr>"
    by simp
  ultimately show ?thesis
    by (simp add: exampleDrag_state)
qed

text \<open>
  The claim as it was stated fails on the sample diagram: P2 is selected, Q0 is glued
  to P2 and is not selected; a drag by (5,0) moves P2 from x = 10 to x = 15 and leaves
  Q0 at x = 10.
\<close>

theorem updateDragging_glued_counterexample:
  "mode (interactionState exampleDrag) = DRAGGING
   \<and> dragStart (interactionState exampleDrag) = Some \<lparr>pt_x = 0, pt_y = 0\<rparr>
   \<and> pm_iri (pointStore exampleDrag 2) \<in> set (selectedPoints (interactionState exampleDrag))
   \<and> pm_iri (pointStore exampleDrag 2) \<in> set (pm_glued (pointStore exampleDrag 3))
   \<and> pm_x (pointStore (updateDragging \<lparr>pt_x = 5, pt_y = 0\<rparr> exampleDrag) 2) = 10 + 5
   \<and> pm_x (pointStore exampleDrag 3) = 10
   \<and> pm_x (pointStore (updateDragging \<lparr>pt_x = 5, pt_y = 0\<rparr> exampleDrag) 3) \<noteq> 10 + 5"
  by (simp add: updateDragging_state [OF exampleDrag_state(1,3,4)] exampleDrag_state
      exampleDrag_snapshot forEachPoint_apply [OF dragPoint_idem] dragPoint_def set_has_def
      exampleDiagram_def exampleStore_def examplePoint_def)

section \<open>Diagram reload and version change\<close>




section \<open>Facts about renumbering and splicing\<close>

lemma renumberFrom_notin: "r \<notin> set rs \<Longrightarrow> renumberFrom k rs s r = s r"
  by (induction k rs s rule: renumberFrom.induct) auto

lemma renumberFrom_fields: "\<exists>n. renumberFrom k rs s r = (s r)\<lparr>sequenceNumber := n\<rparr>"
proof (induction k rs s rule: renumberFrom.induct)
  case (1 k s)
  have "s r = (s r)\<lparr>sequenceNumber := sequenceNumber (s r)\<rparr>" by simp
  then show ?case by (metis renumberFrom.simps(1))
next
  case (2 k a rs s)
  then obtain n where n: "renumberFrom (k + 1) rs (s(a := (s a)\<lparr>sequenceNumber := k\<rparr>)) r
      = ((s(a := (s a)\<lparr>sequenceNumber := k\<rparr>)) r)\<lparr>sequenceNumber := n\<rparr>"
    by blast
  show ?case
  proof (cases "r = a")
    case True
    with n have "renumberFrom k (a # rs) s r = (s r)\<lparr>sequenceNumber := n\<rparr>" by simp
    then show ?thesis by blast
  next
    case False
    with n have "renumberFrom k (a # rs) s r = (s r)\<lparr>sequenceNumber := n\<rparr>" by simp
    then show ?thesis by blast
  qed
qed

lemma renumberFrom_nth:
  "distinct rs \<Longrightarrow> j < length rs
   \<Longrightarrow> renumberFrom k rs s (rs ! j) = (s (rs ! j))\<lparr>sequenceNumber := k + int j\<rparr>"
proof (induction k rs s arbitrary: j rule: renumberFrom.induct)
  case (1 k s)
  then show ?case by simp
next
  case (2 k a rs s)
  show ?case
  proof (cases j)
    case 0
    with "2.prems" show ?thesis by (simp add: renumberFrom_notin)
  next
    case (Suc i)
    with "2.prems" have d: "distinct rs" and i: "i < length rs" and ne: "rs ! i \<noteq> a"
      by auto
    have "renumberFrom k (a # rs) s ((a # rs) ! j)
            = renumberFrom (k + 1) rs (s(a := (s a)\<lparr>sequenceNumber := k\<rparr>)) (rs ! i)"
      by (simp add: Suc)
    also have "\<dots> = ((s(a := (s a)\<lparr>sequenceNumber := k\<rparr>)) (rs ! i))
                         \<lparr>sequenceNumber := k + 1 + int i\<rparr>"
      by (rule "2.IH" [OF d i])
    also have "\<dots> = (s ((a # rs) ! j))\<lparr>sequenceNumber := k + int j\<rparr>"
      using ne Suc by (simp add: add.assoc)
    finally show ?thesis .
  qed
qed

lemma renumber_notin: "r \<notin> set rs \<Longrightarrow> renumber rs s r = s r"
  by (simp add: renumber_def renumberFrom_notin)

lemma renumber_nth:
  "distinct rs \<Longrightarrow> j < length rs
   \<Longrightarrow> renumber rs s (rs ! j) = (s (rs ! j))\<lparr>sequenceNumber := int j\<rparr>"
  by (simp add: renumber_def renumberFrom_nth)

lemma renumber_fields: "\<exists>n. renumber rs s r = (s r)\<lparr>sequenceNumber := n\<rparr>"
  by (simp add: renumber_def renumberFrom_fields)

lemma renumber_iri: "pm_iri (renumber rs s r) = pm_iri (s r)"
proof -
  from renumber_fields obtain n where "renumber rs s r = (s r)\<lparr>sequenceNumber := n\<rparr>"
    by blast
  then show ?thesis by simp
qed

lemma renumber_xy: "pm_x (renumber rs s r) = pm_x (s r) \<and> pm_y (renumber rs s r) = pm_y (s r)"
proof -
  from renumber_fields obtain n where "renumber rs s r = (s r)\<lparr>sequenceNumber := n\<rparr>"
    by blast
  then show ?thesis by simp
qed

lemma renumber_numbered:
  assumes "distinct rs" and "j < length rs"
  shows "sequenceNumber (renumber rs s (rs ! j)) = int j"
  by (simp add: renumber_nth [OF assms])

text \<open>A list numbered in order cannot hold an address twice.\<close>

lemma numbered_distinct:
  assumes "\<forall>j < length rs. sequenceNumber (s (rs ! j)) = int j"
  shows "distinct rs"
  unfolding distinct_conv_nth
proof (intro allI impI)
  fix i j
  assume "i < length rs" "j < length rs" "i \<noteq> j"
  with assms have "sequenceNumber (s (rs ! i)) \<noteq> sequenceNumber (s (rs ! j))" by simp
  then show "rs ! i \<noteq> rs ! j" by auto
qed

lemma findIndex_ge: "- 1 \<le> findIndex P xs"
  by (induction xs) (auto simp: Let_def)

lemma findIndex_found: "a \<in> set xs \<Longrightarrow> P a \<Longrightarrow> 0 \<le> findIndex P xs"
proof (induction xs)
  case Nil
  then show ?case by simp
next
  case (Cons b xs)
  show ?case
  proof (cases "P b")
    case True
    then show ?thesis by simp
  next
    case False
    with Cons.prems have "a \<in> set xs" by auto
    from Cons.IH [OF this Cons.prems(2)] False show ?thesis by (simp add: Let_def)
  qed
qed

lemma findIndex_nth:
  "distinct (map f xs) \<Longrightarrow> j < length xs \<Longrightarrow> findIndex (\<lambda>r. f r = f (xs ! j)) xs = int j"
proof (induction xs arbitrary: j)
  case Nil
  then show ?case by simp
next
  case (Cons a xs)
  show ?case
  proof (cases j)
    case 0
    then show ?thesis by simp
  next
    case (Suc i)
    with Cons.prems have d: "distinct (map f xs)" and i: "i < length xs"
      and ne: "f a \<noteq> f (xs ! i)"
      by auto
    from Cons.IH [OF d i] ne Suc show ?thesis by (simp add: Let_def)
  qed
qed

lemma splice_start_in_range: "0 \<le> i \<Longrightarrow> i \<le> int (length xs) \<Longrightarrow> splice_start i xs = nat i"
  by (simp add: splice_start_def)

lemma splice_delete1_Cons:
  "0 \<le> k \<Longrightarrow> splice_delete1 (k + 1) (a # xs) = a # splice_delete1 k xs"
  by (simp add: splice_delete1_def splice_start_def nat_add_distrib min_def)

lemma splice_delete1_findIndex:
  "distinct (map f xs) \<Longrightarrow> p \<in> set xs
   \<Longrightarrow> splice_delete1 (findIndex (\<lambda>r. f r = f p) xs) xs = remove1 p xs"
proof (induction xs)
  case Nil
  then show ?case by simp
next
  case (Cons a xs)
  show ?case
  proof (cases "f a = f p")
    case True
    with Cons.prems have "a = p" by (auto simp: image_iff)
    with True show ?thesis by (simp add: splice_delete1_def splice_start_def)
  next
    case False
    with Cons.prems have pin: "p \<in> set xs" and d: "distinct (map f xs)" and ne: "a \<noteq> p"
      by auto
    from pin have nn: "0 \<le> findIndex (\<lambda>r. f r = f p) xs"
      by (rule findIndex_found) simp
    from Cons.IH [OF d pin] False ne nn show ?thesis
      by (simp add: Let_def splice_delete1_Cons)
  qed
qed

lemma splice_insert_set: "set (splice_insert i a xs) = insert a (set xs)"
proof -
  have "set (take (splice_start i xs) xs) \<union> set (drop (splice_start i xs) xs) = set xs"
    by (metis append_take_drop_id set_append)
  then show ?thesis by (auto simp: splice_insert_def)
qed

lemma splice_insert_length: "length (splice_insert i a xs) = Suc (length xs)"
  by (simp add: splice_insert_def splice_start_def)

lemma splice_insert_distinct: "distinct xs \<Longrightarrow> a \<notin> set xs \<Longrightarrow> distinct (splice_insert i a xs)"
proof -
  assume d: "distinct xs" and a: "a \<notin> set xs"
  from d have "set (take (splice_start i xs) xs) \<inter> set (drop (splice_start i xs) xs) = {}"
    by (metis append_take_drop_id distinct_append)
  moreover from d have "distinct (take (splice_start i xs) xs)" "distinct (drop (splice_start i xs) xs)"
    by simp_all
  moreover from a have "a \<notin> set (take (splice_start i xs) xs)" "a \<notin> set (drop (splice_start i xs) xs)"
    by (auto dest: in_set_takeD in_set_dropD)
  ultimately show ?thesis by (auto simp: splice_insert_def)
qed

lemma splice_insert_filter:
  assumes "\<not> P a" and "\<forall>b \<in> set xs. P b"
  shows "filter P (splice_insert i a xs) = xs"
proof -
  from assms(2) have "filter P (take (splice_start i xs) xs) = take (splice_start i xs) xs"
    "filter P (drop (splice_start i xs) xs) = drop (splice_start i xs) xs"
    by (auto intro!: filter_True dest: in_set_takeD in_set_dropD)
  with assms(1) show ?thesis by (simp add: splice_insert_def)
qed

section \<open>Facts about inserting a point\<close>

lemma addNewPointToLine_success:
  assumes "diagramData st = Some d"
    and "st' = addNewPointToLine cfg newRef uuid None (Some obj) (Some pos) (Some i) st"
    and "np = \<lparr>pm_iri = ''http://tempuri.org/point/'' @ uuid, pm_x = pt_x pos, pm_y = pt_y pos,
               sequenceNumber = i, parentObject = Some obj, pm_glued = []\<rparr>"
    and "ins = splice_insert i newRef (obj_points (objectStore st obj))"
  shows "pointStore st' = renumber ins ((pointStore st)(newRef := np))"
    and "objectStore st' = (objectStore st)(obj := (objectStore st obj)\<lparr>obj_points := ins\<rparr>)"
    and "diagramData st' = Some (d\<lparr>dm_points := dm_points d @ [newRef]\<rparr>)"
    and "statusText st' = ''New point added''"
    and "isLoading st' = False"
    and "selectedPoints (interactionState st') = [''http://tempuri.org/point/'' @ uuid]"
  using assms
  by (simp_all add: addNewPointToLine_def Let_def setLoading_def updateStatus_def
      clearSelection_def togglePointSelection_def set_has_def set_add_def)

lemma addNewPointToLine_failure:
  assumes "diagramData st = Some d"
    and "st' = addNewPointToLine cfg newRef uuid (Some (Error msg)) (Some obj) (Some pos) (Some i) st"
    and "np = \<lparr>pm_iri = ''http://tempuri.org/point/'' @ uuid, pm_x = pt_x pos, pm_y = pt_y pos,
               sequenceNumber = i, parentObject = Some obj, pm_glued = []\<rparr>"
    and "ins = splice_insert i newRef (obj_points (objectStore st obj))"
    and "S = renumber ins ((pointStore st)(newRef := np))"
    and "kept = filter (\<lambda>r. pm_iri (S r) \<noteq> ''http://tempuri.org/point/'' @ uuid) ins"
  shows "pointStore st' = renumber kept S"
    and "objectStore st' = (objectStore st)(obj := (objectStore st obj)\<lparr>obj_points := kept\<rparr>)"
    and "diagramData st' =
           Some (d\<lparr>dm_points :=
                    filter (\<lambda>r. pm_iri (renumber kept S r) \<noteq> ''http://tempuri.org/point/'' @ uuid)
                      (dm_points d @ [newRef])\<rparr>)"
    and "statusText st' = ''Error: '' @ msg"
    and "isLoading st' = False"
    and "interactionState st' = interactionState st"
    and "viewTransform st' = viewTransform st"
    and "length (remoteCalls st') = Suc (length (remoteCalls st))"
  using assms
  by (simp_all add: addNewPointToLine_def Let_def setLoading_def updateStatus_def)

section \<open>Facts about deleting a point\<close>

lemma splice_delete1_distinct: "distinct xs \<Longrightarrow> distinct (splice_delete1 k xs)"
proof -
  assume d: "distinct xs"
  then have "set (take (splice_start k xs) xs) \<inter> set (drop (Suc (splice_start k xs)) xs) = {}"
    by (rule set_take_disj_set_drop_if_distinct) simp
  with d show ?thesis by (simp add: splice_delete1_def)
qed

lemma splice_delete1_nth:
  "j < length xs \<Longrightarrow> splice_delete1 (int j) xs = take j xs @ drop (Suc j) xs"
  by (simp add: splice_delete1_def splice_start_def)

lemma deletePointFromLine_refused:
  assumes "diagramData st = Some d"
    and "parentObject (pointStore st p) = Some obj"
    and "k = findIndex (\<lambda>r. pm_iri (pointStore st r) = pm_iri (pointStore st p))
               (obj_points (objectStore st obj))"
    and "k = 0 \<or> k = int (length (obj_points (objectStore st obj))) - 1"
  shows "deletePointFromLine cfg failure reload (Some p) st =
           (None, setLoading False
                    (updateStatus ''Cannot delete first or last point of a line or shape'' st))"
  using assms by (auto simp: deletePointFromLine_def Let_def)

lemma loadDiagramLayout_stores:
  "pointStore (snd (loadDiagramLayout cfg response diagramIri st)) = pointStore st"
  "objectStore (snd (loadDiagramLayout cfg response diagramIri st)) = objectStore st"
  by (cases response;
      auto simp: loadDiagramLayout_def Let_def setLoading_imported_def
        updateStatus_imported_def clearSelection_imported_def resetViewTransform_imported_def
        split: error.splits)+

lemma snd_reload_case:
  "snd (case X of (Inl e, s) \<Rightarrow> (Some e, g s) | (Inr d, s) \<Rightarrow> (None, g s)) = g (snd X)"
  by (auto split: prod.splits sum.splits)

lemma deletePointFromLine_proceeds:
  assumes "diagramData st = Some d"
    and "parentObject (pointStore st p) = Some obj"
    and "k = findIndex (\<lambda>r. pm_iri (pointStore st r) = pm_iri (pointStore st p))
               (obj_points (objectStore st obj))"
    and "k \<noteq> 0" and "k \<noteq> int (length (obj_points (objectStore st obj))) - 1"
    and "st' = snd (deletePointFromLine cfg failure reload (Some p) st)"
    and "ps' = splice_delete1 k (obj_points (objectStore st obj))"
  shows "pointStore st' = renumber ps' (pointStore st)"
    and "objectStore st' = (objectStore st)(obj := (objectStore st obj)\<lparr>obj_points := ps'\<rparr>)"
  using assms
  by (cases failure;
      simp add: deletePointFromLine_def Let_def snd_reload_case setLoading_def updateStatus_def
        loadDiagramLayout_stores split: error.splits)+

lemma filter_neq_notin: "a \<notin> set s \<Longrightarrow> filter (\<lambda>b. b \<noteq> a) s = s"
  by (induction s) auto

lemma deletePointFromLine_success:
  assumes "diagramData st = Some d"
    and "parentObject (pointStore st p) = Some obj"
    and "k = findIndex (\<lambda>r. pm_iri (pointStore st r) = pm_iri (pointStore st p))
               (obj_points (objectStore st obj))"
    and "k \<noteq> 0" and "k \<noteq> int (length (obj_points (objectStore st obj))) - 1"
    and "kd = findIndex (\<lambda>r. pm_iri (pointStore st r) = pm_iri (pointStore st p)) (dm_points d)"
  shows "fst (deletePointFromLine cfg None reload (Some p) st) = None"
    and "diagramData (snd (deletePointFromLine cfg None reload (Some p) st)) =
           Some (d\<lparr>dm_points := (if 0 \<le> kd then splice_delete1 kd (dm_points d)
                                   else dm_points d)\<rparr>)"
    and "statusText (snd (deletePointFromLine cfg None reload (Some p) st))
           = ''Point deleted successfully''"
    and "isLoading (snd (deletePointFromLine cfg None reload (Some p) st)) = False"
    and "selectedPoints (interactionState (snd (deletePointFromLine cfg None reload (Some p) st)))
           = set_delete (selectedPoints (interactionState st)) (pm_iri (pointStore st p))"
  using assms
  by (simp_all add: deletePointFromLine_def Let_def setLoading_def updateStatus_def renumber_iri
      set_has_def set_delete_def filter_neq_notin)

lemma deletePointFromLine_call:
  assumes "diagramData st = Some d"
    and "parentObject (pointStore st p) = Some obj"
    and "k = findIndex (\<lambda>r. pm_iri (pointStore st r) = pm_iri (pointStore st p))
               (obj_points (objectStore st obj))"
    and "k \<noteq> 0" and "k \<noteq> int (length (obj_points (objectStore st obj))) - 1"
    and "ps' = splice_delete1 k (obj_points (objectStore st obj))"
  shows "take (Suc (length (remoteCalls st)))
           (remoteCalls (snd (deletePointFromLine cfg failure reload (Some p) st)))
         = remoteCalls st @
             [DeletePoint (pm_iri (pointStore st p))
                (map (\<lambda>r. (pm_iri (pointStore st r),
                           sequenceNumber (renumber ps' (pointStore st) r))) ps')
                (cimNamespace cfg st)]"
  using assms
  by (cases failure; cases reload;
      simp add: deletePointFromLine_def Let_def snd_reload_case setLoading_def updateStatus_def
        loadDiagramLayout_def clearSelection_imported_def resetViewTransform_imported_def
        setLoading_imported_def updateStatus_imported_def cimNamespace_imported_def
        cimNamespace_def
        renumber_iri split: error.splits)

section \<open>The sample diagram, unfolded\<close>

lemma exampleState_fields:
  "diagramData exampleState = Some exampleDiagram"
  "pointStore exampleState = exampleStore"
  "objectStore exampleState = exampleObjects"
  "remoteCalls exampleState = []"
  by (simp_all add: exampleState_def)

lemma exampleObjects_0: "obj_points (exampleObjects 0) = [0, 1, 2]"
  by (simp add: exampleObjects_def)

lemma exampleStore_numbered:
  "\<forall>j < length (obj_points (objectStore exampleState 0)).
     sequenceNumber (pointStore exampleState (obj_points (objectStore exampleState 0) ! j)) = int j"
  by (simp add: exampleState_fields exampleObjects_0 All_less_Suc exampleStore_def
      examplePoint_def)

section \<open>Rolling back a failed insert\<close>

text \<open>
  Claim C7. When the remote call issued by \<open>addNewPointToLine\<close> fails, the local
  insert is undone: the new point is in neither the object's point list nor the
  diagram's flattened collection, the sequence numbers are again 0..n-1, and the
  diagram, every object and every point other than the discarded new one are what they
  were before the call; the status text is the error message, the loading flag is off,
  the interaction state and the view are untouched, and the call returns normally.
  The state before the call is one the data model allows: the object's points are
  numbered 0..n-1 in order, and neither the address nor the identifier made for the new
  point is in use in the object or in the diagram.
\<close>

theorem addNewPointToLine_rollback:
  assumes "diagramData st = Some d"
    and "st' = addNewPointToLine cfg newRef uuid (Some (Error msg)) (Some obj) (Some pos) (Some i) st"
    and "newRef \<notin> set (obj_points (objectStore st obj)) \<union> set (dm_points d)"
    and "\<forall>r \<in> set (obj_points (objectStore st obj)) \<union> set (dm_points d).
           pm_iri (pointStore st r) \<noteq> ''http://tempuri.org/point/'' @ uuid"
    and "\<forall>j < length (obj_points (objectStore st obj)).
           sequenceNumber (pointStore st (obj_points (objectStore st obj) ! j)) = int j"
  shows "diagramData st' = diagramData st
       \<and> objectStore st' = objectStore st
       \<and> (\<forall>r. r \<noteq> newRef \<longrightarrow> pointStore st' r = pointStore st r)
       \<and> newRef \<notin> set (obj_points (objectStore st' obj))
       \<and> (\<forall>d'. diagramData st' = Some d' \<longrightarrow> newRef \<notin> set (dm_points d'))
       \<and> (\<forall>j < length (obj_points (objectStore st' obj)).
             sequenceNumber (pointStore st' (obj_points (objectStore st' obj) ! j)) = int j)
       \<and> statusText st' = ''Error: '' @ msg
       \<and> isLoading st' = False
       \<and> interactionState st' = interactionState st
       \<and> viewTransform st' = viewTransform st"
proof -
  define newIri where "newIri = ''http://tempuri.org/point/'' @ uuid"
  define ps where "ps = obj_points (objectStore st obj)"
  define np where "np = \<lparr>pm_iri = newIri, pm_x = pt_x pos,
    pm_y = pt_y pos, sequenceNumber = i, parentObject = Some obj, pm_glued = []\<rparr>"
  define ins where "ins = splice_insert i newRef (obj_points (objectStore st obj))"
  define S where "S = renumber ins ((pointStore st)(newRef := np))"
  define kept where "kept = filter (\<lambda>r. pm_iri (S r) \<noteq> newIri) ins"
  note f = addNewPointToLine_failure [OF assms(1,2) np_def [unfolded newIri_def] ins_def S_def
      kept_def [unfolded newIri_def], folded newIri_def]
  note fresh_iri = assms(4) [folded newIri_def]
  have fresh_ps: "newRef \<notin> set ps" and fresh_d: "newRef \<notin> set (dm_points d)"
    using assms(3) by (simp_all add: ps_def)
  have iri_S: "pm_iri (S r) = (if r = newRef then newIri else pm_iri (pointStore st r))" for r
    by (simp add: S_def renumber_iri np_def)
  have kept_ps: "kept = ps"
    unfolding kept_def ins_def ps_def [symmetric]
  proof (rule splice_insert_filter)
    show "\<not> pm_iri (S newRef) \<noteq> newIri" by (simp add: iri_S)
    show "\<forall>b\<in>set ps. pm_iri (S b) \<noteq> newIri"
      using fresh_iri fresh_ps by (auto simp: iri_S ps_def)
  qed
  have dist: "distinct ps"
    using assms(5) unfolding ps_def by (rule numbered_distinct)
  have S_other: "\<exists>n. S r = (pointStore st r)\<lparr>sequenceNumber := n\<rparr>" if "r \<noteq> newRef" for r
  proof -
    from renumber_fields obtain n
      where "renumber ins ((pointStore st)(newRef := np)) r
               = (((pointStore st)(newRef := np)) r)\<lparr>sequenceNumber := n\<rparr>"
      by blast
    with that have "S r = (pointStore st r)\<lparr>sequenceNumber := n\<rparr>" by (simp add: S_def)
    then show ?thesis by blast
  qed
  have store: "pointStore st' r = pointStore st r" if ne: "r \<noteq> newRef" for r
  proof (cases "r \<in> set ps")
    case True
    then obtain j where j: "j < length ps" and rj: "r = ps ! j"
      by (auto simp: in_set_conv_nth)
    from S_other [OF ne] obtain n where n: "S r = (pointStore st r)\<lparr>sequenceNumber := n\<rparr>"
      by blast
    from assms(5) j rj have seq: "sequenceNumber (pointStore st r) = int j"
      by (simp add: ps_def)
    have "pointStore st' r = (S r)\<lparr>sequenceNumber := int j\<rparr>"
      unfolding f(1) kept_ps rj by (rule renumber_nth [OF dist j])
    with n seq show ?thesis by simp
  next
    case False
    then have "pointStore st' r = S r"
      unfolding f(1) kept_ps by (rule renumber_notin)
    moreover from False ne have "r \<notin> set ins"
      by (simp add: ins_def splice_insert_set ps_def)
    then have "S r = ((pointStore st)(newRef := np)) r"
      unfolding S_def by (rule renumber_notin)
    ultimately show ?thesis using ne by simp
  qed
  have iri': "pm_iri (renumber kept S r) = (if r = newRef then newIri else pm_iri (pointStore st r))" for r
    by (simp add: renumber_iri iri_S)
  have dps: "filter (\<lambda>r. pm_iri (renumber kept S r) \<noteq> newIri)
               (dm_points d @ [newRef]) = dm_points d"
  proof -
    have "filter (\<lambda>r. pm_iri (renumber kept S r) \<noteq> newIri) (dm_points d) = dm_points d"
      using fresh_iri fresh_d by (auto intro!: filter_True simp: iri')
    then show ?thesis by (simp add: iri')
  qed
  have a: "diagramData st' = diagramData st"
    unfolding f(3) dps by (simp add: assms(1))
  have b: "objectStore st' = objectStore st"
    by (simp add: f(2) kept_ps ps_def)
  have c: "newRef \<notin> set (obj_points (objectStore st' obj))"
    using fresh_ps by (simp add: b ps_def)
  have e: "\<forall>d'. diagramData st' = Some d' \<longrightarrow> newRef \<notin> set (dm_points d')"
    using fresh_d by (simp add: a assms(1))
  have g: "\<forall>j < length (obj_points (objectStore st' obj)).
             sequenceNumber (pointStore st' (obj_points (objectStore st' obj) ! j)) = int j"
  proof (intro allI impI)
    fix j
    assume "j < length (obj_points (objectStore st' obj))"
    then have j: "j < length ps" by (simp add: b ps_def)
    then have "ps ! j \<in> set ps" by simp
    with fresh_ps have "ps ! j \<noteq> newRef" by auto
    from store [OF this] assms(5) j
    show "sequenceNumber (pointStore st' (obj_points (objectStore st' obj) ! j)) = int j"
      by (simp add: b ps_def)
  qed
  from a b c e g store f(4-7) show ?thesis by blast
qed

theorem addNewPointToLine_rollback_witness:
  "diagramData exampleState = Some exampleDiagram
   \<and> 5 \<notin> set (obj_points (objectStore exampleState 0)) \<union> set (dm_points exampleDiagram)
   \<and> diagramData (addNewPointToLine exampleConfig 5 ''u'' (Some (Error ''timeout''))
        (Some 0) (Some \<lparr>pt_x = 5, pt_y = 0\<rparr>) (Some 1) exampleState) = Some exampleDiagram
   \<and> objectStore (addNewPointToLine exampleConfig 5 ''u'' (Some (Error ''timeout''))
        (Some 0) (Some \<lparr>pt_x = 5, pt_y = 0\<rparr>) (Some 1) exampleState) = exampleObjects
   \<and> map (pointStore (addNewPointToLine exampleConfig 5 ''u'' (Some (Error ''timeout''))
           (Some 0) (Some \<lparr>pt_x = 5, pt_y = 0\<rparr>) (Some 1) exampleState)) [0, 1, 2, 3, 4]
       = map exampleStore [0, 1, 2, 3, 4]
   \<and> statusText (addNewPointToLine exampleConfig 5 ''u'' (Some (Error ''timeout''))
        (Some 0) (Some \<lparr>pt_x = 5, pt_y = 0\<rparr>) (Some 1) exampleState) = ''Error: timeout''"
proof -
  have h3: "5 \<notin> set (obj_points (objectStore exampleState 0)) \<union> set (dm_points exampleDiagram)"
    by (simp add: exampleState_fields exampleObjects_0 exampleDiagram_def)
  have h4: "\<forall>r \<in> set (obj_points (objectStore exampleState 0)) \<union> set (dm_points exampleDiagram).
           pm_iri (pointStore exampleState r) \<noteq> ''http://tempuri.org/point/'' @ ''u''"
    by (simp add: exampleState_fields exampleObjects_0 exampleDiagram_def exampleStore_def
        examplePoint_def)
  from addNewPointToLine_rollback [OF exampleState_fields(1) refl h3 h4 exampleStore_numbered,
      of exampleConfig "''timeout''" "\<lparr>pt_x = 5, pt_y = 0\<rparr>" 1]
    h3 show ?thesis
    by (simp add: exampleState_fields)
qed

section \<open>Protected end points\<close>

text \<open>
  Claim C4. Let the points of an object have distinct identifiers, and let
  \<open>deletePointFromLine\<close> be called on the point at index \<open>i\<close> of the object's list.
  For the first point (\<open>i = 0\<close>) and the last point (\<open>i = n - 1\<close>) the call only sets
  the status text \<open>Cannot delete first or last point of a line or shape\<close> (and the
  loading flag off): the points, the objects, the diagram and the trace of remote calls
  are unchanged. For an interior point the local delete is always carried out,
  whatever the remote store answers afterwards: the point is removed from the object's
  list, the remaining points are renumbered 0..n-2 in order and keep their other
  fields, and the remote \<open>deletePoint\<close> call is issued; when that call succeeds the
  function returns normally and the point is removed from the diagram's flattened
  collection as well (given that the collection holds it and has distinct identifiers).
\<close>

theorem deletePointFromLine_protects_ends:
  assumes "diagramData st = Some d"
    and "ps = obj_points (objectStore st obj)"
    and "i < length ps"
    and "parentObject (pointStore st (ps ! i)) = Some obj"
    and "distinct (map (\<lambda>r. pm_iri (pointStore st r)) ps)"
    and "R = deletePointFromLine cfg failure reload (Some (ps ! i)) st"
  shows "(i = 0 \<or> i = length ps - 1 \<longrightarrow>
            R = (None, setLoading False
                         (updateStatus ''Cannot delete first or last point of a line or shape'' st))
          \<and> statusText (snd R) = ''Cannot delete first or last point of a line or shape''
          \<and> pointStore (snd R) = pointStore st
          \<and> objectStore (snd R) = objectStore st
          \<and> diagramData (snd R) = diagramData st
          \<and> remoteCalls (snd R) = remoteCalls st)
       \<and> (0 < i \<and> i < length ps - 1 \<longrightarrow>
            obj_points (objectStore (snd R) obj) = take i ps @ drop (Suc i) ps
          \<and> ps ! i \<notin> set (obj_points (objectStore (snd R) obj))
          \<and> (\<forall>j < length (obj_points (objectStore (snd R) obj)).
                pointStore (snd R) (obj_points (objectStore (snd R) obj) ! j)
                  = (pointStore st (obj_points (objectStore (snd R) obj) ! j))
                      \<lparr>sequenceNumber := int j\<rparr>)
          \<and> (\<exists>updates ns. take (Suc (length (remoteCalls st))) (remoteCalls (snd R))
                 = remoteCalls st @ [DeletePoint (pm_iri (pointStore st (ps ! i))) updates ns])
          \<and> (failure = None \<longrightarrow>
                fst R = None
              \<and> statusText (snd R) = ''Point deleted successfully''
              \<and> (ps ! i \<in> set (dm_points d)
                   \<and> distinct (map (\<lambda>r. pm_iri (pointStore st r)) (dm_points d))
                  \<longrightarrow> diagramData (snd R) = Some (d\<lparr>dm_points := remove1 (ps ! i) (dm_points d)\<rparr>)
                    \<and> ps ! i \<notin> set (remove1 (ps ! i) (dm_points d)))))"
proof (intro conjI impI)
  define k where "k = findIndex (\<lambda>r. pm_iri (pointStore st r) = pm_iri (pointStore st (ps ! i))) ps"
  have k: "k = int i"
    unfolding k_def by (rule findIndex_nth [OF assms(5) assms(3)])
  have kdef: "k = findIndex (\<lambda>r. pm_iri (pointStore st r) = pm_iri (pointStore st (ps ! i)))
                    (obj_points (objectStore st obj))"
    by (simp add: k_def assms(2))
  {
    assume e: "i = 0 \<or> i = length ps - 1"
    with assms(3) have "k = 0 \<or> k = int (length (obj_points (objectStore st obj))) - 1"
      unfolding k assms(2) [symmetric] by auto
    from deletePointFromLine_refused [OF assms(1) assms(4) kdef this]
    show r: "R = (None, setLoading False
                         (updateStatus ''Cannot delete first or last point of a line or shape'' st))"
      by (simp add: assms(6))
    show "statusText (snd R) = ''Cannot delete first or last point of a line or shape''"
      "pointStore (snd R) = pointStore st" "objectStore (snd R) = objectStore st"
      "diagramData (snd R) = diagramData st" "remoteCalls (snd R) = remoteCalls st"
      by (simp_all add: r setLoading_def updateStatus_def)
  }
  {
    assume m: "0 < i \<and> i < length ps - 1"
    then have k0: "k \<noteq> 0" and k1: "k \<noteq> int (length (obj_points (objectStore st obj))) - 1"
      unfolding k assms(2) [symmetric] by auto
    define ps' where "ps' = splice_delete1 k (obj_points (objectStore st obj))"
    have st': "snd R = snd (deletePointFromLine cfg failure reload (Some (ps ! i)) st)"
      by (simp add: assms(6))
    note p = deletePointFromLine_proceeds [OF assms(1) assms(4) kdef k0 k1 st' ps'_def]
    have ps'_eq: "ps' = take i ps @ drop (Suc i) ps"
      unfolding ps'_def k assms(2) [symmetric] by (rule splice_delete1_nth [OF assms(3)])
    have dist: "distinct ps"
      using assms(5) by (simp add: distinct_map)
    have dist': "distinct ps'"
      unfolding ps'_def assms(2) [symmetric] using dist by (rule splice_delete1_distinct)
    show o: "obj_points (objectStore (snd R) obj) = take i ps @ drop (Suc i) ps"
      by (simp add: p(2) ps'_eq)
    have "ps' = remove1 (ps ! i) ps"
      unfolding ps'_def k_def assms(2) [symmetric]
      by (rule splice_delete1_findIndex [OF assms(5)]) (simp add: assms(3))
    with dist show "ps ! i \<notin> set (obj_points (objectStore (snd R) obj))"
      by (simp add: o [symmetric] p(2))
    show "\<forall>j < length (obj_points (objectStore (snd R) obj)).
                pointStore (snd R) (obj_points (objectStore (snd R) obj) ! j)
                  = (pointStore st (obj_points (objectStore (snd R) obj) ! j))
                      \<lparr>sequenceNumber := int j\<rparr>"
      by (simp add: p renumber_nth [OF dist'])
    from deletePointFromLine_call [OF assms(1) assms(4) kdef k0 k1 ps'_def, of cfg failure reload]
    show "\<exists>updates ns. take (Suc (length (remoteCalls st))) (remoteCalls (snd R))
                 = remoteCalls st @ [DeletePoint (pm_iri (pointStore st (ps ! i))) updates ns]"
      unfolding assms(6) by blast
    {
      assume f: "failure = None"
      note s = deletePointFromLine_success [OF assms(1) assms(4) kdef k0 k1 refl, of cfg reload]
      show "fst R = None" "statusText (snd R) = ''Point deleted successfully''"
        by (simp_all add: assms(6) f s)
      {
        assume h: "ps ! i \<in> set (dm_points d)
                   \<and> distinct (map (\<lambda>r. pm_iri (pointStore st r)) (dm_points d))"
        then have pin: "ps ! i \<in> set (dm_points d)"
          and dd: "distinct (map (\<lambda>r. pm_iri (pointStore st r)) (dm_points d))"
          by simp_all
        have nn: "0 \<le> findIndex (\<lambda>r. pm_iri (pointStore st r) = pm_iri (pointStore st (ps ! i)))
                        (dm_points d)"
          using pin by (rule findIndex_found) simp
        show "diagramData (snd R) = Some (d\<lparr>dm_points := remove1 (ps ! i) (dm_points d)\<rparr>)"
          by (simp add: assms(6) f s(2) nn splice_delete1_findIndex [OF dd pin])
        from dd have "distinct (dm_points d)" by (simp add: distinct_map)
        then show "ps ! i \<notin> set (remove1 (ps ! i) (dm_points d))" by simp
      }
    }
  }
qed

theorem deletePointFromLine_protects_ends_witness:
  "diagramData exampleState = Some exampleDiagram
   \<and> obj_points (objectStore exampleState 0) = [0, 1, 2]
   \<and> parentObject (pointStore exampleState ([0, 1, 2] ! 0)) = Some 0
   \<and> parentObject (pointStore exampleState ([0, 1, 2] ! 1)) = Some 0
   \<and> distinct (map (\<lambda>r. pm_iri (pointStore exampleState r)) [0, 1, 2])
   \<and> deletePointFromLine exampleConfig None (Inr exampleDiagram) (Some 0) exampleState
       = (None, setLoading False
                  (updateStatus ''Cannot delete first or last point of a line or shape''
                     exampleState))
   \<and> obj_points (objectStore
        (snd (deletePointFromLine exampleConfig None (Inr exampleDiagram) (Some 1) exampleState)) 0)
       = [0, 2]
   \<and> diagramData
        (snd (deletePointFromLine exampleConfig None (Inr exampleDiagram) (Some 1) exampleState))
       = Some (exampleDiagram\<lparr>dm_points := [0, 2, 3, 4]\<rparr>)"
proof -
  have h2: "[0, 1, 2] = obj_points (objectStore exampleState 0)"
    by (simp add: exampleState_fields exampleObjects_0)
  have p0: "parentObject (pointStore exampleState ([0, 1, 2] ! 0)) = Some 0"
    and p1: "parentObject (pointStore exampleState ([0, 1, 2] ! 1)) = Some 0"
    by (simp_all add: exampleState_fields exampleStore_def examplePoint_def)
  have h5: "distinct (map (\<lambda>r. pm_iri (pointStore exampleState r)) [0, 1, 2])"
    by (simp add: exampleState_fields exampleStore_def examplePoint_def)
  have i0: "0 < length [0::nat, 1, 2]" and i1: "1 < length [0::nat, 1, 2]" by simp_all
  note t0 = deletePointFromLine_protects_ends [OF exampleState_fields(1) h2 i0 p0 h5 refl,
      of exampleConfig None "Inr exampleDiagram"]
  note t1 = deletePointFromLine_protects_ends [OF exampleState_fields(1) h2 i1 p1 h5 refl,
      of exampleConfig None "Inr exampleDiagram"]
  have a: "deletePointFromLine exampleConfig None (Inr exampleDiagram) (Some 0) exampleState
       = (None, setLoading False
                  (updateStatus ''Cannot delete first or last point of a line or shape''
                     exampleState))"
    using t0 by simp
  have d: "1 \<in> set (dm_points exampleDiagram)
           \<and> distinct (map (\<lambda>r. pm_iri (pointStore exampleState r)) (dm_points exampleDiagram))"
    by (simp add: exampleDiagram_def exampleState_fields exampleStore_def examplePoint_def)
  have b: "obj_points (objectStore
        (snd (deletePointFromLine exampleConfig None (Inr exampleDiagram) (Some 1) exampleState)) 0)
       = [0, 2]"
    using t1 by simp
  have c: "diagramData
        (snd (deletePointFromLine exampleConfig None (Inr exampleDiagram) (Some 1) exampleState))
       = Some (exampleDiagram\<lparr>dm_points := [0, 2, 3, 4]\<rparr>)"
    using t1 d by (simp add: exampleDiagram_def)
  from a b c h2 p0 p1 h5 show ?thesis
    by (simp add: exampleState_fields)
qed

section \<open>Sequence numbers after insert and delete\<close>

text \<open>
  Claim C3. Let an object hold each of its points once. After \<open>addNewPointToLine\<close>
  on the object (whether the remote call succeeds or fails) and after a
  \<open>deletePointFromLine\<close> that gets past the first-or-last check, the sequence numbers
  of the object's points are 0..n-1 in list order, n being the number of points the
  object then has. When the insert succeeds, the object's list is the old list with
  the new point spliced in at the position \<open>splice\<close> gives index \<open>i\<close>, which is
  \<open>i\<close> itself for \<open>0 \<le> i \<le> n\<close>; the new point carries the given position, and it is
  appended to the diagram's flattened point collection; the other points keep their
  identifiers and coordinates. The example of the claim, O = [P0(0,0), P1(10,0),
  P2(10,10)] with a point inserted at index 1 at (5,0), is the instance that follows
  the theorem.
\<close>

theorem sequence_numbers_after_insert_and_delete:
  assumes "diagramData st = Some d"
    and "ps = obj_points (objectStore st obj)"
    and "distinct ps"
    and "stA = addNewPointToLine cfg newRef uuid failure (Some obj) (Some pos) (Some i) st"
    and "stD = snd (deletePointFromLine cfg failure reload (Some p) st)"
    and "k = findIndex (\<lambda>r. pm_iri (pointStore st r) = pm_iri (pointStore st p)) ps"
  shows "(newRef \<notin> set ps \<longrightarrow>
            (\<forall>j < length (obj_points (objectStore stA obj)).
               sequenceNumber (pointStore stA (obj_points (objectStore stA obj) ! j)) = int j)
          \<and> (failure = None \<longrightarrow>
                obj_points (objectStore stA obj)
                  = take (splice_start i ps) ps @ [newRef] @ drop (splice_start i ps) ps
              \<and> (0 \<le> i \<and> i \<le> int (length ps) \<longrightarrow>
                   obj_points (objectStore stA obj) = take (nat i) ps @ [newRef] @ drop (nat i) ps
                 \<and> obj_points (objectStore stA obj) ! nat i = newRef)
              \<and> length (obj_points (objectStore stA obj)) = Suc (length ps)
              \<and> diagramData stA = Some (d\<lparr>dm_points := dm_points d @ [newRef]\<rparr>)
              \<and> pm_iri (pointStore stA newRef) = ''http://tempuri.org/point/'' @ uuid
              \<and> pm_x (pointStore stA newRef) = pt_x pos
              \<and> pm_y (pointStore stA newRef) = pt_y pos
              \<and> (\<forall>r. r \<noteq> newRef \<longrightarrow> pm_iri (pointStore stA r) = pm_iri (pointStore st r)
                     \<and> pm_x (pointStore stA r) = pm_x (pointStore st r)
                     \<and> pm_y (pointStore stA r) = pm_y (pointStore st r))))
       \<and> (parentObject (pointStore st p) = Some obj \<and> k \<noteq> 0 \<and> k \<noteq> int (length ps) - 1 \<longrightarrow>
            (\<forall>j < length (obj_points (objectStore stD obj)).
               sequenceNumber (pointStore stD (obj_points (objectStore stD obj) ! j)) = int j))"
proof (intro conjI impI)
  define newIri where "newIri = ''http://tempuri.org/point/'' @ uuid"
  define np where "np = \<lparr>pm_iri = newIri, pm_x = pt_x pos,
    pm_y = pt_y pos, sequenceNumber = i, parentObject = Some obj, pm_glued = []\<rparr>"
  define ins where "ins = splice_insert i newRef (obj_points (objectStore st obj))"
  define S where "S = renumber ins ((pointStore st)(newRef := np))"
  define kept where "kept = filter (\<lambda>r. pm_iri (S r) \<noteq> newIri) ins"
  {
    assume fresh: "newRef \<notin> set ps"
    have dins: "distinct ins"
      unfolding ins_def assms(2) [symmetric] using assms(3) fresh by (rule splice_insert_distinct)
    show "\<forall>j < length (obj_points (objectStore stA obj)).
               sequenceNumber (pointStore stA (obj_points (objectStore stA obj) ! j)) = int j"
    proof (cases failure)
      case None
      note s = addNewPointToLine_success [OF assms(1) assms(4) [unfolded None]
          np_def [unfolded newIri_def] ins_def]
      show ?thesis by (simp add: s renumber_numbered [OF dins])
    next
      case (Some e)
      obtain msg where e: "e = Error msg" by (cases e)
      note f = addNewPointToLine_failure [OF assms(1) assms(4) [unfolded Some e]
          np_def [unfolded newIri_def] ins_def S_def kept_def [unfolded newIri_def]]
      from dins have "distinct kept" by (simp add: kept_def)
      then show ?thesis by (simp add: f renumber_numbered)
    qed
    {
      assume ok: "failure = None"
      note s = addNewPointToLine_success [OF assms(1) assms(4) [unfolded ok]
          np_def [unfolded newIri_def] ins_def, folded newIri_def]
      have ins_ps: "ins = take (splice_start i ps) ps @ [newRef] @ drop (splice_start i ps) ps"
        by (simp add: ins_def splice_insert_def assms(2))
      show o: "obj_points (objectStore stA obj)
                  = take (splice_start i ps) ps @ [newRef] @ drop (splice_start i ps) ps"
        by (simp add: s ins_ps)
      show "length (obj_points (objectStore stA obj)) = Suc (length ps)"
        by (simp add: s ins_def splice_insert_length assms(2))
      show "diagramData stA = Some (d\<lparr>dm_points := dm_points d @ [newRef]\<rparr>)"
        by (rule s(3))
      show "pm_iri (pointStore stA newRef) = ''http://tempuri.org/point/'' @ uuid"
        by (simp add: s renumber_iri np_def newIri_def)
      show "pm_x (pointStore stA newRef) = pt_x pos" "pm_y (pointStore stA newRef) = pt_y pos"
        by (simp_all add: s renumber_xy np_def)
      show "\<forall>r. r \<noteq> newRef \<longrightarrow> pm_iri (pointStore stA r) = pm_iri (pointStore st r)
                     \<and> pm_x (pointStore stA r) = pm_x (pointStore st r)
                     \<and> pm_y (pointStore stA r) = pm_y (pointStore st r)"
        by (simp add: s renumber_iri renumber_xy)
      {
        assume r: "0 \<le> i \<and> i \<le> int (length ps)"
        then have st: "splice_start i ps = nat i"
          by (simp add: splice_start_in_range)
        show "obj_points (objectStore stA obj) = take (nat i) ps @ [newRef] @ drop (nat i) ps"
          by (simp add: o st)
        from r have "nat i \<le> length ps" by linarith
        then have "length (take (nat i) ps) = nat i" by simp
        then show "obj_points (objectStore stA obj) ! nat i = newRef"
          unfolding o st by (metis append_Cons nth_append_length)
      }
    }
  }
  {
    assume h: "parentObject (pointStore st p) = Some obj \<and> k \<noteq> 0 \<and> k \<noteq> int (length ps) - 1"
    have kdef: "k = findIndex (\<lambda>r. pm_iri (pointStore st r) = pm_iri (pointStore st p))
                    (obj_points (objectStore st obj))"
      by (simp add: assms(6) assms(2))
    from h have par: "parentObject (pointStore st p) = Some obj" and k0: "k \<noteq> 0"
      and k1: "k \<noteq> int (length (obj_points (objectStore st obj))) - 1"
      by (simp_all add: assms(2))
    note p = deletePointFromLine_proceeds [OF assms(1) par kdef k0 k1 assms(5) refl]
    have "distinct (splice_delete1 k (obj_points (objectStore st obj)))"
      using assms(3) unfolding assms(2) by (rule splice_delete1_distinct)
    then show "\<forall>j < length (obj_points (objectStore stD obj)).
               sequenceNumber (pointStore stD (obj_points (objectStore stD obj) ! j)) = int j"
      by (simp add: p renumber_numbered)
  }
qed

theorem sequence_numbers_after_insert_and_delete_witness:
  "diagramData exampleState = Some exampleDiagram
   \<and> obj_points (objectStore exampleState 0) = [0, 1, 2]
   \<and> distinct [0 :: nat, 1, 2] \<and> 5 \<notin> set [0 :: nat, 1, 2]
   \<and> obj_points (objectStore (addNewPointToLine exampleConfig 5 ''u'' None
        (Some 0) (Some \<lparr>pt_x = 5, pt_y = 0\<rparr>) (Some 1) exampleState) 0) = [0, 5, 1, 2]
   \<and> map (\<lambda>r. (pm_x (pointStore (addNewPointToLine exampleConfig 5 ''u'' None
                   (Some 0) (Some \<lparr>pt_x = 5, pt_y = 0\<rparr>) (Some 1) exampleState) r),
                 pm_y (pointStore (addNewPointToLine exampleConfig 5 ''u'' None
                   (Some 0) (Some \<lparr>pt_x = 5, pt_y = 0\<rparr>) (Some 1) exampleState) r),
                 sequenceNumber (pointStore (addNewPointToLine exampleConfig 5 ''u'' None
                   (Some 0) (Some \<lparr>pt_x = 5, pt_y = 0\<rparr>) (Some 1) exampleState) r)))
       [0, 5, 1, 2]
       = [(0, 0, 0), (5, 0, 1), (10, 0, 2), (10, 10, 3)]
   \<and> diagramData (addNewPointToLine exampleConfig 5 ''u'' None
        (Some 0) (Some \<lparr>pt_x = 5, pt_y = 0\<rparr>) (Some 1) exampleState)
       = Some (exampleDiagram\<lparr>dm_points := [0, 1, 2, 3, 4, 5]\<rparr>)
   \<and> parentObject (pointStore exampleState 1) = Some 0
   \<and> findIndex (\<lambda>r. pm_iri (pointStore exampleState r) = pm_iri (pointStore exampleState 1))
         [0, 1, 2] = 1
   \<and> obj_points (objectStore
         (snd (deletePointFromLine exampleConfig None (Inr exampleDiagram) (Some 1)
            exampleState)) 0) = [0, 2]
   \<and> map (\<lambda>r. sequenceNumber (pointStore
         (snd (deletePointFromLine exampleConfig None (Inr exampleDiagram) (Some 1)
            exampleState)) r)) [0, 2] = [0, 1]"
proof -
  define stA where "stA = addNewPointToLine exampleConfig 5 ''u'' None
        (Some 0) (Some \<lparr>pt_x = 5, pt_y = 0\<rparr>) (Some 1) exampleState"
  have h2: "[0, 1, 2] = obj_points (objectStore exampleState 0)"
    by (simp add: exampleState_fields exampleObjects_0)
  have h3: "distinct [0 :: nat, 1, 2]" by simp
  have fresh: "5 \<notin> set [0 :: nat, 1, 2]" by simp
  note t = sequence_numbers_after_insert_and_delete [OF exampleState_fields(1) h2 h3 stA_def
      refl refl, where reload = "Inr exampleDiagram" and p = 1]
  from t fresh have o: "obj_points (objectStore stA 0) = [0, 5, 1, 2]"
    by (simp add: splice_start_def)
  from t fresh have "\<forall>j < length (obj_points (objectStore stA 0)).
               sequenceNumber (pointStore stA (obj_points (objectStore stA 0) ! j)) = int j"
    by blast
  then have seq: "sequenceNumber (pointStore stA 0) = 0" "sequenceNumber (pointStore stA 5) = 1"
    "sequenceNumber (pointStore stA 1) = 2" "sequenceNumber (pointStore stA 2) = 3"
    unfolding o by (simp_all add: All_less_Suc)
  from t fresh have new: "pm_x (pointStore stA 5) = 5" "pm_y (pointStore stA 5) = 0"
    by simp_all
  from t fresh have "\<forall>r. r \<noteq> 5 \<longrightarrow> pm_x (pointStore stA r) = pm_x (pointStore exampleState r)
                     \<and> pm_y (pointStore stA r) = pm_y (pointStore exampleState r)"
    by simp
  then have old: "pm_x (pointStore stA 0) = 0" "pm_y (pointStore stA 0) = 0"
    "pm_x (pointStore stA 1) = 10" "pm_y (pointStore stA 1) = 0"
    "pm_x (pointStore stA 2) = 10" "pm_y (pointStore stA 2) = 10"
    by (simp_all add: exampleState_fields exampleStore_def examplePoint_def)
  from t fresh have dd: "diagramData stA = Some (exampleDiagram\<lparr>dm_points := [0, 1, 2, 3, 4, 5]\<rparr>)"
    by (simp add: exampleDiagram_def)
  have par: "parentObject (pointStore exampleState 1) = Some 0"
    by (simp add: exampleState_fields exampleStore_def examplePoint_def)
  have k: "findIndex (\<lambda>r. pm_iri (pointStore exampleState r) = pm_iri (pointStore exampleState 1))
         [0, 1, 2] = 1"
    by (simp add: exampleState_fields exampleStore_def examplePoint_def)
  define stD where "stD = snd (deletePointFromLine exampleConfig None (Inr exampleDiagram)
    (Some 1) exampleState)"
  have k': "1 = findIndex (\<lambda>r. pm_iri (pointStore exampleState r)
                              = pm_iri (pointStore exampleState 1))
                  (obj_points (objectStore exampleState 0))"
    by (simp add: exampleState_fields exampleObjects_0 exampleStore_def examplePoint_def)
  have k0: "(1 :: int) \<noteq> 0" by simp
  have k1: "1 \<noteq> int (length (obj_points (objectStore exampleState 0))) - 1"
    by (simp add: exampleState_fields exampleObjects_0)
  have oD: "obj_points (objectStore stD 0) = [0, 2]"
    unfolding deletePointFromLine_proceeds(2) [OF exampleState_fields(1) par k' k0 k1 stD_def refl]
    by (simp add: exampleState_fields exampleObjects_0 splice_delete1_def splice_start_def)
  from t par k have "\<forall>j < length (obj_points (objectStore stD 0)).
         sequenceNumber (pointStore stD (obj_points (objectStore stD 0) ! j)) = int j"
    unfolding stD_def by simp
  then have del: "map (\<lambda>r. sequenceNumber (pointStore stD r)) [0, 2] = [0, 1]"
    unfolding oD by (simp add: All_less_Suc)
  from o seq new old dd have ins: "obj_points (objectStore stA 0) = [0, 5, 1, 2]
    \<and> map (\<lambda>r. (pm_x (pointStore stA r), pm_y (pointStore stA r),
                 sequenceNumber (pointStore stA r))) [0, 5, 1, 2]
       = [(0, 0, 0), (5, 0, 1), (10, 0, 2), (10, 10, 3)]
    \<and> diagramData stA = Some (exampleDiagram\<lparr>dm_points := [0, 1, 2, 3, 4, 5]\<rparr>)"
    by simp
  from ins par k oD del show ?thesis
    unfolding stA_def [symmetric] stD_def [symmetric]
    by (simp add: exampleState_fields exampleObjects_0)
qed

section \<open>The snapshot map\<close>

text \<open>
  Claim C9, amended. After \<open>startDragging\<close> on a loaded diagram the key set of the
  snapshot map \<open>originalPositions\<close> is exactly the set of selected identifiers,
  captured at that moment, that belong to points of the diagram's flattened point
  collection. The map is empty in the initial interaction state. It is not cleared
  when the mode is not DRAGGING: \<open>endDragging\<close>, \<open>revertDraggedPositions\<close>,
  \<open>updateDragging\<close>, \<open>clearSelection\<close>, \<open>setCGMESVersion\<close>, \<open>togglePointSelection\<close>,
  \<open>startSelecting\<close>, \<open>updateSelecting\<close>, \<open>completeSelecting\<close>, \<open>startPanning\<close>,
  \<open>updatePanning\<close>, \<open>endPanning\<close>, \<open>resetViewTransform\<close>, \<open>setLoading\<close>,
  \<open>updateStatus\<close> and \<open>addNewPointToLine\<close> leave it as it is, and so does
  \<open>deletePointFromLine\<close> whenever it does not go on to reload the diagram.
\<close>

theorem snapshot_map_keys_and_lifetime:
  "(\<forall>d. diagramData st = Some d \<longrightarrow>
       dom (originalPositions (interactionState (startDragging p st)))
         = set (selectedPoints (interactionState st))
           \<inter> (\<lambda>r. pm_iri (pointStore st r)) ` set (dm_points d))
   \<and> originalPositions initialInteractionState = Map.empty
   \<and> originalPositions (interactionState (snd (endDragging cfg p st)))
       = originalPositions (interactionState st)
   \<and> originalPositions (interactionState (revertDraggedPositions st))
       = originalPositions (interactionState st)
   \<and> originalPositions (interactionState (updateDragging p st))
       = originalPositions (interactionState st)
   \<and> originalPositions (interactionState (clearSelection st))
       = originalPositions (interactionState st)
   \<and> originalPositions (interactionState (setCGMESVersion version st))
       = originalPositions (interactionState st)
   \<and> originalPositions (interactionState (togglePointSelection pointIri st))
       = originalPositions (interactionState st)
   \<and> originalPositions (interactionState (startSelecting p st))
       = originalPositions (interactionState st)
   \<and> originalPositions (interactionState (updateSelecting p st))
       = originalPositions (interactionState st)
   \<and> originalPositions (interactionState (completeSelecting st))
       = originalPositions (interactionState st)
   \<and> originalPositions (interactionState (startPanning p st))
       = originalPositions (interactionState st)
   \<and> originalPositions (interactionState (updatePanning p st))
       = originalPositions (interactionState st)
   \<and> originalPositions (interactionState (endPanning st))
       = originalPositions (interactionState st)
   \<and> originalPositions (interactionState (resetViewTransform cfg st))
       = originalPositions (interactionState st)
   \<and> originalPositions (interactionState (setLoading loading st))
       = originalPositions (interactionState st)
   \<and> originalPositions (interactionState (updateStatus text st))
       = originalPositions (interactionState st)
   \<and> originalPositions (interactionState
        (addNewPointToLine cfg newRef uuid failure object position insertIndex st))
       = originalPositions (interactionState st)
   \<and> (failure = None \<or> selectedDiagram st = [] \<longrightarrow>
        originalPositions (interactionState
          (snd (deletePointFromLine cfg failure reload point st)))
          = originalPositions (interactionState st))"
proof (intro conjI allI impI)
  fix d
  assume d: "diagramData st = Some d"
  show "dom (originalPositions (interactionState (startDragging p st)))
         = set (selectedPoints (interactionState st))
           \<inter> (\<lambda>r. pm_iri (pointStore st r)) ` set (dm_points d)"
    unfolding startDragging_state(6) [OF d] dom_foldl_snapshotPoint
    by auto
next
  show "originalPositions initialInteractionState = Map.empty"
    by (simp add: initialInteractionState_def)
next
  show "originalPositions (interactionState (snd (endDragging cfg p st)))
       = originalPositions (interactionState st)"
    by (simp add: endDragging_def Let_def revertDraggedPositions_rest split: option.splits)
next
  show "originalPositions (interactionState (revertDraggedPositions st))
       = originalPositions (interactionState st)"
    by (simp add: revertDraggedPositions_rest)
next
  show "originalPositions (interactionState (updateDragging p st))
       = originalPositions (interactionState st)"
    by (simp add: updateDragging_def Let_def split: option.splits)
next
  show "originalPositions (interactionState (clearSelection st))
       = originalPositions (interactionState st)"
    by (simp add: clearSelection_def)
next
  show "originalPositions (interactionState (setCGMESVersion version st))
       = originalPositions (interactionState st)"
    by (simp add: setCGMESVersion_def clearSelection_def)
next
  show "originalPositions (interactionState (togglePointSelection pointIri st))
       = originalPositions (interactionState st)"
    by (simp add: togglePointSelection_def Let_def)
next
  show "originalPositions (interactionState (startSelecting p st))
       = originalPositions (interactionState st)"
    by (simp add: startSelecting_def)
next
  show "originalPositions (interactionState (updateSelecting p st))
       = originalPositions (interactionState st)"
    by (simp add: updateSelecting_def)
next
  show "originalPositions (interactionState (completeSelecting st))
       = originalPositions (interactionState st)"
    by (simp add: completeSelecting_def Let_def split: option.splits)
next
  show "originalPositions (interactionState (startPanning p st))
       = originalPositions (interactionState st)"
    by (simp add: startPanning_def)
next
  show "originalPositions (interactionState (updatePanning p st))
       = originalPositions (interactionState st)"
    by (simp add: updatePanning_def Let_def split: option.splits)
next
  show "originalPositions (interactionState (endPanning st))
       = originalPositions (interactionState st)"
    by (simp add: endPanning_def)
next
  show "originalPositions (interactionState (resetViewTransform cfg st))
       = originalPositions (interactionState st)"
    by (simp add: resetViewTransform_def)
next
  show "originalPositions (interactionState (setLoading loading st))
       = originalPositions (interactionState st)"
    by (simp add: setLoading_def)
next
  show "originalPositions (interactionState (updateStatus text st))
       = originalPositions (interactionState st)"
    by (simp add: updateStatus_def)
next
  show "originalPositions (interactionState
        (addNewPointToLine cfg newRef uuid failure object position insertIndex st))
       = originalPositions (interactionState st)"
    by (simp add: addNewPointToLine_def Let_def setLoading_def updateStatus_def
        clearSelection_def togglePointSelection_def
        split: option.splits error.splits)
next
  assume "failure = None \<or> selectedDiagram st = []"
  then show "originalPositions (interactionState
          (snd (deletePointFromLine cfg failure reload point st)))
          = originalPositions (interactionState st)"
    by (auto simp: deletePointFromLine_def Let_def setLoading_def updateStatus_def
        split: option.splits error.splits)
qed

theorem snapshot_map_keys_and_lifetime_witness:
  "diagramData (togglePointSelection ''P2'' exampleState) = Some exampleDiagram
   \<and> dom (originalPositions (interactionState exampleDrag)) = {''P2''}
   \<and> originalPositions (interactionState
        (snd (endDragging exampleConfig \<lparr>pt_x = 0, pt_y = 0\<rparr> exampleDrag)))
       = [''P2'' \<mapsto> \<lparr>pt_x = 10, pt_y = 10\<rparr>]
   \<and> originalPositions (interactionState
        (snd (deletePointFromLine exampleConfig None (Inr exampleDiagram) (Some 1) exampleDrag)))
       = [''P2'' \<mapsto> \<lparr>pt_x = 10, pt_y = 10\<rparr>]"
proof -
  note t1 = snapshot_map_keys_and_lifetime
      [where st = "togglePointSelection ''P2'' exampleState" and p = "\<lparr>pt_x = 0, pt_y = 0\<rparr>"]
  note t2 = snapshot_map_keys_and_lifetime
      [where st = exampleDrag and p = "\<lparr>pt_x = 0, pt_y = 0\<rparr>" and cfg = exampleConfig
         and failure = None and reload = "Inr exampleDiagram" and point = "Some 1"]
  have img: "(\<lambda>r. pm_iri (exampleStore r)) ` set (dm_points exampleDiagram)
               = {''P0'', ''P1'', ''P2'', ''Q0'', ''Q1''}"
    by (simp add: exampleDiagram_def exampleStore_def examplePoint_def)
  from t1 exampleToggled_state(1)
  have "dom (originalPositions (interactionState exampleDrag))
         = set (selectedPoints (interactionState (togglePointSelection ''P2'' exampleState)))
           \<inter> (\<lambda>r. pm_iri (pointStore (togglePointSelection ''P2'' exampleState) r))
               ` set (dm_points exampleDiagram)"
    unfolding exampleDrag_def by blast
  then have k: "dom (originalPositions (interactionState exampleDrag)) = {''P2''}"
    by (simp add: exampleToggled_state img)
  from t2 have e: "originalPositions (interactionState
        (snd (endDragging exampleConfig \<lparr>pt_x = 0, pt_y = 0\<rparr> exampleDrag)))
       = originalPositions (interactionState exampleDrag)"
    by blast
  from t2 have dl: "originalPositions (interactionState
        (snd (deletePointFromLine exampleConfig None (Inr exampleDiagram) (Some 1) exampleDrag)))
       = originalPositions (interactionState exampleDrag)"
    by blast
  from k e dl exampleToggled_state(1) show ?thesis
    by (simp add: exampleDrag_snapshot)
qed

text \<open>
  The claim as it was stated fails on the sample state in two ways. A selected
  identifier that names no point of the diagram gets no key: with only \<open>ghost\<close>
  selected, the map is empty after \<open>startDragging\<close>. And the map is not cleared:
  after the drag with P2 selected is ended, the mode is NONE and the snapshot of P2 is
  still in the map.
\<close>

theorem snapshot_map_not_cleared_counterexample:
  "selectedPoints (interactionState
      (startDragging \<lparr>pt_x = 0, pt_y = 0\<rparr> (togglePointSelection ''ghost'' exampleState)))
     = [''ghost'']
   \<and> mode (interactionState
      (startDragging \<lparr>pt_x = 0, pt_y = 0\<rparr> (togglePointSelection ''ghost'' exampleState)))
     = DRAGGING
   \<and> dom (originalPositions (interactionState
      (startDragging \<lparr>pt_x = 0, pt_y = 0\<rparr> (togglePointSelection ''ghost'' exampleState))))
     = {}
   \<and> mode (interactionState (snd (endDragging exampleConfig \<lparr>pt_x = 0, pt_y = 0\<rparr> exampleDrag)))
     = NONE
   \<and> originalPositions (interactionState
        (snd (endDragging exampleConfig \<lparr>pt_x = 0, pt_y = 0\<rparr> exampleDrag))) ''P2''
     = Some \<lparr>pt_x = 10, pt_y = 10\<rparr>
   \<and> originalPositions (interactionState
        (snd (endDragging exampleConfig \<lparr>pt_x = 0, pt_y = 0\<rparr> exampleDrag))) \<noteq> Map.empty"
proof -
  have gd: "diagramData (togglePointSelection ''ghost'' exampleState) = Some exampleDiagram"
    and gs: "selectedPoints (interactionState (togglePointSelection ''ghost'' exampleState))
               = [''ghost'']"
    and gp: "pointStore (togglePointSelection ''ghost'' exampleState) = exampleStore"
    by (simp_all add: togglePointSelection_def exampleState_def initialInteractionState_def
        set_has_def set_add_def Let_def)
  note sd = startDragging_state [OF gd, of "\<lparr>pt_x = 0, pt_y = 0\<rparr>"]
  have g: "originalPositions (interactionState
      (startDragging \<lparr>pt_x = 0, pt_y = 0\<rparr> (togglePointSelection ''ghost'' exampleState)))
     = Map.empty"
    by (simp add: sd(6) gs gp exampleDiagram_def snapshotPoint_def set_has_def
        exampleStore_def examplePoint_def Let_def)
  have e: "endDragging exampleConfig \<lparr>pt_x = 0, pt_y = 0\<rparr> exampleDrag =
           (None, revertDraggedPositions
                    (exampleDrag\<lparr>interactionState := (interactionState exampleDrag)
                          \<lparr>mode := NONE, dragStart := None, dragEnd := None\<rparr>\<rparr>))"
    by (rule endDragging_insignificant [OF exampleDrag_state(3,4)])
      (simp_all add: exampleConfig_def)
  have v: "originalPositions (interactionState
        (snd (endDragging exampleConfig \<lparr>pt_x = 0, pt_y = 0\<rparr> exampleDrag))) ''P2''
     = Some \<lparr>pt_x = 10, pt_y = 10\<rparr>"
    by (simp add: e revertDraggedPositions_rest exampleDrag_snapshot)
  then have ne: "originalPositions (interactionState
        (snd (endDragging exampleConfig \<lparr>pt_x = 0, pt_y = 0\<rparr> exampleDrag))) \<noteq> Map.empty"
    by auto
  have m: "mode (interactionState
        (snd (endDragging exampleConfig \<lparr>pt_x = 0, pt_y = 0\<rparr> exampleDrag))) = NONE"
    by (simp add: e revertDraggedPositions_rest)
  from g v ne m sd(3) sd(5) gs show ?thesis
    by simp
qed

end
